theory Spec2Isabelle
  imports Complex_Main "HOL-Library.Sublist"
begin

section \<open>Exceptions\<close>

text \<open>
  The two exceptions the modelled code can raise: the \<open>TypeError\<close> of the JavaScript
  runtime (a property of \<open>undefined\<close> is read, or a property is assigned on a
  primitive value in strict-mode code) and the \<open>Error("Model not trained")\<close> of the
  classifier. A function that can raise returns \<open>error + 'a\<close>, \<open>Inl\<close> for the exception.
\<close>

datatype error = TypeError | ModelNotTrained

section \<open>Caches: \<open>CacheManager\<close> (utils/cache.js) and \<open>DistributedCache\<close> (utils/distributedCache.js)\<close>

text \<open>
  \<open>CacheManager\<close> is the second module of the source file
  backend/src/utils/analytics.js, \<open>DistributedCache\<close> the second module of
  unnamed/part_007. Both caches keep a \<open>Map\<close> from key to an entry holding the value and the instant at
  which it expires, in milliseconds. \<open>get\<close> returns the value or \<open>null\<close> (\<open>None\<close>); the
  model returns the store as well, since \<open>CacheManager.get\<close> deletes from it. The clock
  reading of each operation is an argument.
\<close>

record 'v cached =
  cached_value :: 'v
  expiryTime :: int

type_synonym 'v cacheManager = "string \<rightharpoonup> 'v cached"

definition CacheManager_set ::
  "'v cacheManager \<Rightarrow> string \<Rightarrow> 'v \<Rightarrow> int \<Rightarrow> int \<Rightarrow> 'v cacheManager" where
  "CacheManager_set cache key v ttlSeconds now =
     cache(key \<mapsto> \<lparr> cached_value = v, expiryTime = now + ttlSeconds * 1000 \<rparr>)"

definition CacheManager_get ::
  "'v cacheManager \<Rightarrow> string \<Rightarrow> int \<Rightarrow> 'v option \<times> 'v cacheManager" where
  "CacheManager_get cache key now =
     (case cache key of
        None \<Rightarrow> (None, cache)
      | Some cached \<Rightarrow>
          if now > expiryTime cached then (None, cache(key := None))
          else (Some (cached_value cached), cache))"

text \<open>
  The distributed cache has the local map and an optional Redis client. The client is
  outside the program: it is modelled by what it answers for a key, either an exception
  (the call or \<open>JSON.parse\<close> of its reply throws) or the stored value, if any, with the
  JSON round trip left abstract. \<open>redis = None\<close> is the local-only cache, which is what
  the constructor leaves when no Redis URL is configured or the connection fails.
\<close>

record 'v localValue =
  local_value :: 'v
  expiresAt :: int

record 'v distributedCache =
  localCache :: "string \<rightharpoonup> 'v localValue"
  redis :: "(string \<Rightarrow> error + 'v option) option"

text \<open>
  \<open>get(key)\<close>: a Redis hit is returned at once; otherwise the local entry is returned
  if it has not expired; otherwise \<open>null\<close>. An exception anywhere is caught and gives
  \<open>null\<close>. No branch changes the local map.
\<close>

definition DistributedCache_getLocal ::
  "'v distributedCache \<Rightarrow> string \<Rightarrow> int \<Rightarrow> 'v option \<times> 'v distributedCache" where
  "DistributedCache_getLocal c key now =
     (case localCache c key of
        None \<Rightarrow> (None, c)
      | Some localValue \<Rightarrow>
          if expiresAt localValue > now then (Some (local_value localValue), c)
          else (None, c))"

definition DistributedCache_get ::
  "'v distributedCache \<Rightarrow> string \<Rightarrow> int \<Rightarrow> 'v option \<times> 'v distributedCache" where
  "DistributedCache_get c key now =
     (case redis c of
        None \<Rightarrow> DistributedCache_getLocal c key now
      | Some client \<Rightarrow>
          (case client key of
             Inl err \<Rightarrow> (None, c)
           | Inr (Some v) \<Rightarrow> (Some v, c)
           | Inr None \<Rightarrow> DistributedCache_getLocal c key now))"

text \<open>
  \<open>set(key, value, ttlSeconds)\<close> writes the local entry after the Redis write; when the
  Redis write throws, the exception is caught and the local write is skipped. The
  Redis side of the write is outside the model: \<open>redisOk\<close> says whether it returned.
\<close>

definition DistributedCache_set ::
  "'v distributedCache \<Rightarrow> string \<Rightarrow> 'v \<Rightarrow> int \<Rightarrow> int \<Rightarrow> bool \<Rightarrow> 'v distributedCache" where
  "DistributedCache_set c key v ttlSeconds now redisOk =
     (if redis c \<noteq> None \<and> \<not> redisOk then c
      else c\<lparr> localCache := (localCache c)(key \<mapsto>
                \<lparr> local_value = v, expiresAt = now + ttlSeconds * 1000 \<rparr>) \<rparr>)"

section \<open>Admission control: \<open>AdvancedRateLimiter\<close> (utils/advancedRateLimiter.js)\<close>

text \<open>
  Instants and durations are milliseconds, as \<open>Date.now()\<close> gives them, modelled as
  \<open>int\<close>. Identifiers and scope names are strings. Every reading of the clock is an
  argument of the operation that reads it: \<open>checkLimit\<close> reads the clock once itself and
  \<open>addToBlocklist\<close>, which it calls on a denial, reads it once more.
\<close>

record limit =
  limit_requests :: nat
  limit_window :: int

record limits =
  perUser :: limit
  perSession :: limit
  perIP :: limit

record rateRecord =
  requests :: nat
  firstRequest :: int
  dynamic :: nat

record trackers =
  byUser :: "string \<rightharpoonup> rateRecord"
  bySession :: "string \<rightharpoonup> rateRecord"
  byIP :: "string \<rightharpoonup> rateRecord"

record limiter =
  limits :: limits
  trackers :: trackers
  blocklist :: "string \<rightharpoonup> int"

text \<open>The constructor; the interval timer it starts is the caller of \<open>cleanup\<close>.\<close>

definition AdvancedRateLimiter_new :: limiter where
  "AdvancedRateLimiter_new =
     \<lparr> limits = \<lparr> perUser = \<lparr> limit_requests = 100, limit_window = 60 * 60 * 1000 \<rparr>,
                  perSession = \<lparr> limit_requests = 50, limit_window = 60 * 60 * 1000 \<rparr>,
                  perIP = \<lparr> limit_requests = 500, limit_window = 60 * 60 * 1000 \<rparr> \<rparr>,
       trackers = \<lparr> byUser = Map.empty, bySession = Map.empty, byIP = Map.empty \<rparr>,
       blocklist = Map.empty \<rparr>"

text \<open>
  \<open>type.charAt(0).toUpperCase() + type.slice(1)\<close>. Only the letters a to z are mapped:
  every other code unit either stays as it is or upper-cases to something that is not
  a single ASCII letter, so it can produce none of the three property names looked up
  below, and the model leaves it unchanged.
\<close>

definition toUpperCaseChar :: "char \<Rightarrow> char" where
  "toUpperCaseChar c =
     (case map_of (zip ''abcdefghijklmnopqrstuvwxyz'' ''ABCDEFGHIJKLMNOPQRSTUVWXYZ'') c of
        Some u \<Rightarrow> u
      | None \<Rightarrow> c)"

definition capitalize :: "string \<Rightarrow> string" where
  "capitalize type = (case type of [] \<Rightarrow> [] | c # rest \<Rightarrow> toUpperCaseChar c # rest)"

datatype scope = User | Session | IP

text \<open>
  \<open>this.trackers[`by${...}`]\<close> and \<open>this.limits[`per${...}`]\<close>: both objects have the
  same three suffixes, so one lookup of the suffix decides both; \<open>None\<close> is
  \<open>undefined\<close>.
\<close>

definition scopeOf :: "string \<Rightarrow> scope option" where
  "scopeOf type =
     (let suffix = capitalize type in
      if suffix = ''User'' then Some User
      else if suffix = ''Session'' then Some Session
      else if suffix = ''IP'' then Some IP
      else None)"

fun trackerOf :: "limiter \<Rightarrow> scope \<Rightarrow> (string \<rightharpoonup> rateRecord)" where
  "trackerOf s User = byUser (trackers s)"
| "trackerOf s Session = bySession (trackers s)"
| "trackerOf s IP = byIP (trackers s)"

fun limitOf :: "limiter \<Rightarrow> scope \<Rightarrow> limit" where
  "limitOf s User = perUser (limits s)"
| "limitOf s Session = perSession (limits s)"
| "limitOf s IP = perIP (limits s)"

fun trackerSet :: "limiter \<Rightarrow> scope \<Rightarrow> string \<Rightarrow> rateRecord \<Rightarrow> limiter" where
  "trackerSet s User k r = s\<lparr>trackers := (trackers s)\<lparr>byUser := (byUser (trackers s))(k \<mapsto> r)\<rparr>\<rparr>"
| "trackerSet s Session k r = s\<lparr>trackers := (trackers s)\<lparr>bySession := (bySession (trackers s))(k \<mapsto> r)\<rparr>\<rparr>"
| "trackerSet s IP k r = s\<lparr>trackers := (trackers s)\<lparr>byIP := (byIP (trackers s))(k \<mapsto> r)\<rparr>\<rparr>"

datatype remaining = Finite nat | Infinity

record limitResult =
  allowed :: bool
  remaining :: remaining
  retryAfter :: "nat option"

definition addToBlocklist :: "limiter \<Rightarrow> string \<Rightarrow> int \<Rightarrow> int \<Rightarrow> limiter" where
  "addToBlocklist s identifier durationMs now =
     s\<lparr>blocklist := (blocklist s)(identifier \<mapsto> now + durationMs)\<rparr>"

text \<open>
  \<open>checkLimit(identifier, type)\<close>; \<open>now\<close> is its own reading of the clock and
  \<open>nowBlock\<close> the one \<open>addToBlocklist\<close> takes when the call is denied. The early
  return for an unknown scope has no \<open>retryAfter\<close> field, the allowed return has
  \<open>null\<close>: both are \<open>None\<close>.
\<close>

definition checkLimit ::
  "limiter \<Rightarrow> string \<Rightarrow> string \<Rightarrow> int \<Rightarrow> int \<Rightarrow> limitResult \<times> limiter" where
  "checkLimit s identifier type now nowBlock =
     (case scopeOf type of
        None \<Rightarrow> (\<lparr> allowed = True, remaining = Infinity, retryAfter = None \<rparr>, s)
      | Some sc \<Rightarrow>
          let lim = limitOf s sc;
              fresh = \<lparr> requests = 0, firstRequest = now, dynamic = limit_requests lim \<rparr>;
              record0 = (case trackerOf s sc identifier of
                           None \<Rightarrow> fresh
                         | Some r \<Rightarrow> if now - firstRequest r > limit_window lim then fresh else r);
              record1 = record0\<lparr>requests := requests record0 + 1\<rparr>;
              s1 = trackerSet s sc identifier record1;
              ok = (requests record1 \<le> dynamic record1);
              s2 = (if \<not> ok then addToBlocklist s1 identifier (5 * 60 * 1000) nowBlock else s1)
          in (\<lparr> allowed = ok,
                remaining = Finite (nat (max 0 (int (dynamic record1) - int (requests record1)))),
                retryAfter = (if \<not> ok then Some 300 else None) \<rparr>, s2))"

definition isBlocked :: "limiter \<Rightarrow> string \<Rightarrow> int \<Rightarrow> bool \<times> limiter" where
  "isBlocked s identifier now =
     (case blocklist s identifier of
        None \<Rightarrow> (False, s)
      | Some blockTime \<Rightarrow>
          if blockTime = 0 then (False, s)
          else if blockTime < now then (False, s\<lparr>blocklist := (blocklist s)(identifier := None)\<rparr>)
          else (True, s))"

definition adjustLimitsBasedOnLoad :: "limiter \<Rightarrow> real \<Rightarrow> real \<Rightarrow> limiter" where
  "adjustLimitsBasedOnLoad s cpuUsage memoryUsage =
     (let highLoad = (cpuUsage > 80 \<or> memoryUsage > 85) in
      if highLoad
      then s\<lparr>limits := (limits s)\<lparr>perSession := (perSession (limits s))\<lparr>limit_requests := 25\<rparr>,
                                   perUser := (perUser (limits s))\<lparr>limit_requests := 50\<rparr>\<rparr>\<rparr>
      else s\<lparr>limits := (limits s)\<lparr>perSession := (perSession (limits s))\<lparr>limit_requests := 50\<rparr>,
                                   perUser := (perUser (limits s))\<lparr>limit_requests := 100\<rparr>\<rparr>\<rparr>)"

text \<open>
  \<open>cleanup()\<close> reads the clock once. Its first loop walks \<open>trackers.bySession\<close> and
  deletes the records whose window has elapsed; its second loop walks the blocklist and
  deletes the entries whose instant has passed. It has no loop over \<open>byUser\<close> or
  \<open>byIP\<close>.
\<close>

definition cleanup :: "limiter \<Rightarrow> int \<Rightarrow> limiter" where
  "cleanup s now =
     s\<lparr> trackers := (trackers s)\<lparr> bySession :=
           (\<lambda>key. case bySession (trackers s) key of
                     None \<Rightarrow> None
                   | Some r \<Rightarrow>
                       if now - firstRequest r > limit_window (perSession (limits s))
                       then None else Some r) \<rparr>,
        blocklist :=
           (\<lambda>key. case blocklist s key of
                     None \<Rightarrow> None
                   | Some blockTime \<Rightarrow> if blockTime < now then None else Some blockTime) \<rparr>"

text \<open>A sequence of \<open>checkLimit\<close> calls by one identifier, one pair of clock readings each.\<close>

fun checkLimits ::
  "limiter \<Rightarrow> string \<Rightarrow> string \<Rightarrow> (int \<times> int) list \<Rightarrow> limitResult list \<times> limiter" where
  "checkLimits s identifier type [] = ([], s)"
| "checkLimits s identifier type (t # ts) =
     (let (r, s1) = checkLimit s identifier type (fst t) (snd t);
          (rs, s2) = checkLimits s1 identifier type ts
      in (r # rs, s2))"

section \<open>Response merger: \<open>ResponseMerger.mergeResponses\<close> (services/responseMerger.js)\<close>

text \<open>
  The class is the second module of the source file backend/src/services/rag.js.
  A source result is a loosely shaped object: \<open>{ success: false }\<close> has neither content
  nor confidence nor metadata, so all three are optional (\<open>None\<close> is \<open>undefined\<close>).
  \<open>sources\<close> is an object keyed by source name. Confidences are modelled as real
  numbers.
\<close>

type_synonym metadata = "(string \<times> string) list"

record sourceResult =
  success :: bool
  content :: "string option"
  confidence :: "real option"
  metadata :: "metadata option"

type_synonym sources = "string \<rightharpoonup> sourceResult"

record sourceDetail =
  source :: string
  detail_confidence :: real
  detail_content :: "string option"
  detail_metadata :: metadata

record merged =
  primaryResponse :: "string option"
  sourceDetails :: "sourceDetail list"
  confidenceScore :: real
  usedSources :: "string list"

text \<open>
  \<open>x.confidence || d\<close>: the default replaces every falsy value, that is a missing
  confidence and the number 0. \<open>x.metadata || {}\<close> likewise.
\<close>

definition orDefault :: "real option \<Rightarrow> real \<Rightarrow> real" where
  "orDefault v d = (case v of None \<Rightarrow> d | Some x \<Rightarrow> if x = 0 then d else x)"

definition orEmpty :: "metadata option \<Rightarrow> metadata" where
  "orEmpty v = (case v of None \<Rightarrow> [] | Some md \<Rightarrow> md)"

definition priorityOrder :: "string \<Rightarrow> string list" where
  "priorityOrder intent =
     (if intent = ''realtime'' then [''realtime'', ''rag'', ''pdf'', ''llm'']
      else if intent = ''rag'' \<or> intent = ''pdf'' then [''pdf'', ''rag'', ''realtime'', ''llm'']
      else [''llm'', ''rag'', ''pdf'', ''realtime''])"

text \<open>The first loop: the first source of the priority order that is present and successful.\<close>

fun findPrimary :: "sources \<Rightarrow> string list \<Rightarrow> (string \<times> real) option" where
  "findPrimary sources [] = None"
| "findPrimary sources (src # rest) =
     (case sources src of
        None \<Rightarrow> findPrimary sources rest
      | Some r \<Rightarrow>
          if success r then Some (src, orDefault (confidence r) 0.8)
          else findPrimary sources rest)"

text \<open>
  The entry the second loop pushes for a supplementary source;
  \<open>content.substring(0, 100) + "..."\<close> needs the content to be a string.
\<close>

definition supplementaryDetail :: "string \<Rightarrow> sourceResult \<Rightarrow> string \<Rightarrow> sourceDetail" where
  "supplementaryDetail src r c =
     \<lparr> source = src,
       detail_confidence = orDefault (confidence r) 0.6,
       detail_content = Some (take 100 c @ ''...''),
       detail_metadata = orEmpty (metadata r) \<rparr>"

text \<open>
  The second loop, over the same priority order. A successful supplementary source
  without content makes \<open>content.substring\<close> raise a \<open>TypeError\<close>, which rejects the
  promise \<open>mergeResponses\<close> returns.
\<close>

fun supplementary ::
  "sources \<Rightarrow> string option \<Rightarrow> string list \<Rightarrow> merged \<Rightarrow> error + merged" where
  "supplementary sources primarySource [] m = Inr m"
| "supplementary sources primarySource (src # rest) m =
     (case sources src of
        None \<Rightarrow> supplementary sources primarySource rest m
      | Some r \<Rightarrow>
          if Some src \<noteq> primarySource \<and> success r
          then (case content r of
                  None \<Rightarrow> Inl TypeError
                | Some c \<Rightarrow>
                    supplementary sources primarySource rest
                      (m\<lparr> sourceDetails := sourceDetails m @ [supplementaryDetail src r c],
                          usedSources := usedSources m @ [src] \<rparr>))
          else supplementary sources primarySource rest m)"

definition mergeResponses :: "sources \<Rightarrow> string \<Rightarrow> string \<Rightarrow> error + merged" where
  "mergeResponses sources query intent =
     (let merged0 = \<lparr> primaryResponse = Some '''', sourceDetails = [],
                       confidenceScore = 0, usedSources = [] \<rparr>;
          order = priorityOrder intent;
          found = findPrimary sources order;
          primarySource = map_option fst found;
          highestConfidence = (case found of None \<Rightarrow> 0 | Some (p, c) \<Rightarrow> c);
          merged1 =
            (case primarySource of
               None \<Rightarrow> merged0
             | Some p \<Rightarrow>
                 (case sources p of
                    None \<Rightarrow> merged0
                  | Some r \<Rightarrow>
                      merged0\<lparr> primaryResponse := content r,
                               usedSources := usedSources merged0 @ [p],
                               confidenceScore := highestConfidence,
                               sourceDetails := sourceDetails merged0 @
                                 [\<lparr> source = p,
                                    detail_confidence = highestConfidence,
                                    detail_content = None,
                                    detail_metadata = orEmpty (metadata r) \<rparr>] \<rparr>))
      in supplementary sources primarySource order merged1)"

text \<open>A source is present and successful: \<open>sources[source] && sources[source].success\<close>.\<close>

definition succeeded :: "sources \<Rightarrow> string \<Rightarrow> bool" where
  "succeeded sources src = (case sources src of None \<Rightarrow> False | Some r \<Rightarrow> success r)"

text \<open>Every successful source carries a content string, as the fan-out builds them.\<close>

definition contentPresent :: "sources \<Rightarrow> string list \<Rightarrow> bool" where
  "contentPresent sources order =
     list_all (\<lambda>src. case sources src of
                       None \<Rightarrow> True
                     | Some r \<Rightarrow> if success r then content r \<noteq> None else True) order"

text \<open>
  The supplementary entry of a source as the second loop builds it, read off the
  sources object (used to state what the attribution list holds).
\<close>

definition supplementaryOf :: "sources \<Rightarrow> string \<Rightarrow> sourceDetail" where
  "supplementaryOf sources src =
     (case sources src of
        None \<Rightarrow> \<lparr> source = src, detail_confidence = 0, detail_content = None, detail_metadata = [] \<rparr>
      | Some r \<Rightarrow> supplementaryDetail src r (case content r of None \<Rightarrow> [] | Some c \<Rightarrow> c))"

section \<open>Strings\<close>

text \<open>
  A JavaScript string is a sequence of UTF-16 code units. The model is \<open>string\<close>, whose
  characters are the code units below 256. \<open>toLowerCase\<close> maps A to Z only: the other
  letters below 256 lower-case to letters that are again outside ASCII, which no keyword
  contains and which the feature extractor deletes either way, so the code cannot tell
  the difference on such text.
\<close>

definition toLowerCaseChar :: "char \<Rightarrow> char" where
  "toLowerCaseChar c =
     (case map_of (zip ''ABCDEFGHIJKLMNOPQRSTUVWXYZ'' ''abcdefghijklmnopqrstuvwxyz'') c of
        Some l \<Rightarrow> l
      | None \<Rightarrow> c)"

definition toLowerCase :: "string \<Rightarrow> string" where
  "toLowerCase s = map toLowerCaseChar s"

text \<open>\<open>s.includes(k)\<close>: \<open>k\<close> occurs in \<open>s\<close> as a contiguous run.\<close>

fun str_includes :: "string \<Rightarrow> string \<Rightarrow> bool" where
  "str_includes [] k = (k = [])"
| "str_includes (c # cs) k = (prefix k (c # cs) \<or> str_includes cs k)"

section \<open>Rule-based intent detection: \<open>detectIntentRuleBased\<close> (services/intentDetector.js)\<close>

record pattern =
  pattern_keywords :: "string list"
  pattern_type :: string

text \<open>\<open>INTENT_PATTERNS\<close>, in the order \<open>Object.entries\<close> walks it.\<close>

definition INTENT_PATTERNS :: "pattern list" where
  "INTENT_PATTERNS =
     [\<lparr> pattern_keywords = [''weather'', ''temperature'', ''rain'', ''snow'', ''sunny'', ''cloudy'',
                     ''forecast'', ''celsius'', ''fahrenheit''],
        pattern_type = ''weather'' \<rparr>,
      \<lparr> pattern_keywords = [''news'', ''headlines'', ''latest'', ''breaking'', ''today'',
                     ''current events'', ''happening''],
        pattern_type = ''news'' \<rparr>,
      \<lparr> pattern_keywords = [''exchange'', ''rate'', ''currency'', ''convert'', ''dollar'', ''euro'',
                     ''pound'', ''price'', ''forex''],
        pattern_type = ''currency'' \<rparr>,
      \<lparr> pattern_keywords = [''time'', ''what time'', ''current time'', ''now'', [CHR ''o'', CHR 0x27] @ ''clock''],
        pattern_type = ''time'' \<rparr>]"

definition ragKeywords :: "string list" where
  "ragKeywords = [''explain'', ''tell me'', ''what is'', ''how does'', ''describe'',
                  ''definition'', ''concept'', ''learn'', ''understand'', ''about'']"

definition generalKeywords :: "string list" where
  "generalKeywords = [''hi'', ''hello'', ''thanks'', ''help'', ''please'', ''can you'',
                      ''would you'', ''could you'']"

text \<open>\<open>keywords.filter((keyword) => messageLower.includes(keyword)).length\<close>\<close>

definition matchCount :: "string \<Rightarrow> string list \<Rightarrow> nat" where
  "matchCount messageLower kws = length (filter (str_includes messageLower) kws)"

text \<open>
  \<open>message\<close> is a string primitive and the module is an ES module, hence strict-mode
  code. Reading \<open>message._detectedType\<close> gives \<open>undefined\<close>, whatever the string is;
  the assignment \<open>message._detectedType = pattern.type\<close> cannot create a property on a
  primitive and raises a \<open>TypeError\<close>.
\<close>

definition get_detectedType :: "string \<Rightarrow> string option" where
  "get_detectedType message = None"

definition set_detectedType :: "string \<Rightarrow> string \<Rightarrow> error + unit" where
  "set_detectedType message t = Inl TypeError"

text \<open>
  The loop over \<open>INTENT_PATTERNS\<close> that accumulates \<open>scores.realtime\<close>. Nothing
  catches the exception of the assignment, so it ends the loop and the function.
\<close>

fun realtimeLoop :: "string \<Rightarrow> string \<Rightarrow> pattern list \<Rightarrow> nat \<Rightarrow> error + nat" where
  "realtimeLoop message messageLower [] realtime = Inr realtime"
| "realtimeLoop message messageLower (p # ps) realtime =
     (let count = matchCount messageLower (pattern_keywords p) in
      if count > 0
      then (let realtime1 = realtime + count in
            if get_detectedType message = None
            then (case set_detectedType message (pattern_type p) of
                    Inl err \<Rightarrow> Inl err
                  | Inr u \<Rightarrow> realtimeLoop message messageLower ps realtime1)
            else realtimeLoop message messageLower ps realtime1)
      else realtimeLoop message messageLower ps realtime)"

record scores =
  realtime :: nat
  rag :: nat
  general :: nat

definition maxScoreOf :: "scores \<Rightarrow> nat" where
  "maxScoreOf sc = max (max (realtime sc) (rag sc)) (general sc)"

text \<open>The choice of \<open>dominantIntent\<close>: an if / else-if chain over realtime, then rag.\<close>

definition dominantIntentOf :: "scores \<Rightarrow> string" where
  "dominantIntentOf sc =
     (let maxScore = maxScoreOf sc in
      if realtime sc = maxScore \<and> realtime sc > 0 then ''realtime''
      else if rag sc = maxScore \<and> rag sc > 0 then ''rag''
      else ''general'')"

text \<open>The last loop: the type of the first pattern one of whose keywords occurs.\<close>

fun firstType :: "string \<Rightarrow> pattern list \<Rightarrow> string option" where
  "firstType messageLower [] = None"
| "firstType messageLower (p # ps) =
     (if list_ex (str_includes messageLower) (pattern_keywords p) then Some (pattern_type p)
      else firstType messageLower ps)"

record ruleResult =
  rule_intent :: string
  rule_confidence :: real
  rule_scores :: scores
  rule_type :: "string option"

definition detectIntentRuleBased :: "string \<Rightarrow> error + ruleResult" where
  "detectIntentRuleBased message =
     (let messageLower = toLowerCase message in
      case realtimeLoop message messageLower INTENT_PATTERNS 0 of
        Inl err \<Rightarrow> Inl err
      | Inr realtimeScore \<Rightarrow>
          let sc = \<lparr> realtime = realtimeScore,
                     rag = 0 + matchCount messageLower ragKeywords,
                     general = 0 + matchCount messageLower generalKeywords \<rparr>;
              maxScore = maxScoreOf sc;
              dominantIntent = dominantIntentOf sc;
              conf = (if maxScore > 0 then min (real maxScore / 3) 1 else 0)
          in Inr \<lparr> rule_intent = dominantIntent,
                   rule_confidence = conf,
                   rule_scores = sc,
                   rule_type = (if dominantIntent = ''realtime''
                                then firstType messageLower INTENT_PATTERNS else None) \<rparr>)"

section \<open>Numbers of the classifier\<close>

text \<open>
  Scores and confidences are IEEE doubles in the program. The model computes with real
  numbers and keeps the three special values that the code can produce or compare
  with: \<open>NaN\<close> and the two infinities. Rounding is not modelled.
\<close>

datatype jsnum = Num real | NaN | PosInfinity | NegInfinity

text \<open>\<open>a > b\<close> and \<open>a < b\<close>: false whenever an operand is \<open>NaN\<close>.\<close>

fun js_gt :: "jsnum \<Rightarrow> jsnum \<Rightarrow> bool" where
  "js_gt (Num a) (Num b) = (a > b)"
| "js_gt (Num a) NegInfinity = True"
| "js_gt PosInfinity (Num b) = True"
| "js_gt PosInfinity NegInfinity = True"
| "js_gt a b = False"

definition js_lt :: "jsnum \<Rightarrow> jsnum \<Rightarrow> bool" where
  "js_lt a b = js_gt b a"

text \<open>\<open>Math.max\<close> and \<open>Math.min\<close> of two values: \<open>NaN\<close> if either is \<open>NaN\<close>.\<close>

fun js_max :: "jsnum \<Rightarrow> jsnum \<Rightarrow> jsnum" where
  "js_max NaN b = NaN"
| "js_max a NaN = NaN"
| "js_max a b = (if js_gt b a then b else a)"

fun js_min :: "jsnum \<Rightarrow> jsnum \<Rightarrow> jsnum" where
  "js_min NaN b = NaN"
| "js_min a NaN = NaN"
| "js_min a b = (if js_gt a b then b else a)"

text \<open>\<open>Math.max(...xs)\<close> starts from \<open>-Infinity\<close>, \<open>Math.min(...xs)\<close> from \<open>Infinity\<close>.\<close>

definition Math_max :: "jsnum list \<Rightarrow> jsnum" where
  "Math_max xs = fold (\<lambda>x acc. js_max acc x) xs NegInfinity"

definition Math_min :: "jsnum list \<Rightarrow> jsnum" where
  "Math_min xs = fold (\<lambda>x acc. js_min acc x) xs PosInfinity"

text \<open>
  \<open>s + Math.log(p)\<close> for a probability \<open>p > 0\<close>, and the blend
  \<open>c * 0.7 + entityScore * 0.3\<close> with a finite entity score: a finite first operand
  gives the real result, any other first operand comes back unchanged.
\<close>

fun js_add_log :: "jsnum \<Rightarrow> real \<Rightarrow> jsnum" where
  "js_add_log (Num s) p = Num (s + ln p)"
| "js_add_log a p = a"

fun blend :: "jsnum \<Rightarrow> real \<Rightarrow> jsnum" where
  "blend (Num c) entityScore = Num (c * 0.7 + entityScore * 0.3)"
| "blend a entityScore = a"

section \<open>Statistical classifier: \<open>NaiveBayesIntentClassifier\<close> (ml/intentModel.js)\<close>

text \<open>The module is the source file unnamed/part_013.\<close>

record example =
  example_text :: string
  example_intent :: string
  example_type :: "string option"

definition TRAINING_DATA :: "example list" where
  "TRAINING_DATA =
     [\<lparr> example_text = ''what is the weather'', example_intent = ''realtime'', example_type = Some ''weather'' \<rparr>,
      \<lparr> example_text = ''weather forecast'', example_intent = ''realtime'', example_type = Some ''weather'' \<rparr>,
      \<lparr> example_text = ''is it raining'', example_intent = ''realtime'', example_type = Some ''weather'' \<rparr>,
      \<lparr> example_text = ''temperature today'', example_intent = ''realtime'', example_type = Some ''weather'' \<rparr>,
      \<lparr> example_text = ''will it snow'', example_intent = ''realtime'', example_type = Some ''weather'' \<rparr>,
      \<lparr> example_text = ''how hot is it'', example_intent = ''realtime'', example_type = Some ''weather'' \<rparr>,
      \<lparr> example_text = ''latest news'', example_intent = ''realtime'', example_type = Some ''news'' \<rparr>,
      \<lparr> example_text = ''breaking news today'', example_intent = ''realtime'', example_type = Some ''news'' \<rparr>,
      \<lparr> example_text = ''what is trending'', example_intent = ''realtime'', example_type = Some ''news'' \<rparr>,
      \<lparr> example_text = ''current events'', example_intent = ''realtime'', example_type = Some ''news'' \<rparr>,
      \<lparr> example_text = ''headlines'', example_intent = ''realtime'', example_type = Some ''news'' \<rparr>,
      \<lparr> example_text = ''exchange rate'', example_intent = ''realtime'', example_type = Some ''currency'' \<rparr>,
      \<lparr> example_text = ''usd to eur'', example_intent = ''realtime'', example_type = Some ''currency'' \<rparr>,
      \<lparr> example_text = ''bitcoin price'', example_intent = ''realtime'', example_type = Some ''currency'' \<rparr>,
      \<lparr> example_text = ''convert currency'', example_intent = ''realtime'', example_type = Some ''currency'' \<rparr>,
      \<lparr> example_text = ''explain artificial intelligence'', example_intent = ''rag'', example_type = None \<rparr>,
      \<lparr> example_text = ''tell me about machine learning'', example_intent = ''rag'', example_type = None \<rparr>,
      \<lparr> example_text = ''what is data science'', example_intent = ''rag'', example_type = None \<rparr>,
      \<lparr> example_text = ''define blockchain'', example_intent = ''rag'', example_type = None \<rparr>,
      \<lparr> example_text = ''how does deep learning work'', example_intent = ''rag'', example_type = None \<rparr>,
      \<lparr> example_text = ''hello'', example_intent = ''general'', example_type = None \<rparr>,
      \<lparr> example_text = ''hi there'', example_intent = ''general'', example_type = None \<rparr>,
      \<lparr> example_text = ''thanks for your help'', example_intent = ''general'', example_type = None \<rparr>,
      \<lparr> example_text = ''can you help me'', example_intent = ''general'', example_type = None \<rparr>]"

text \<open>
  The fields of the classifier. An object used as a table is an association list in
  insertion order: \<open>classPrior\<close> maps a class name to its prior, \<open>classWordProb\<close> a
  class name to its table of feature probabilities. \<open>vocabulary\<close> is a \<open>Set\<close>: a list
  without repetitions. (\<open>wordFreq\<close> is never used.)
\<close>

record classifier =
  vocabulary :: "string list"
  classPrior :: "(string \<times> real) list"
  classWordProb :: "(string \<times> (string \<times> real) list) list"
  isTrained :: bool

definition NaiveBayesIntentClassifier_new :: classifier where
  "NaiveBayesIntentClassifier_new =
     \<lparr> vocabulary = [], classPrior = [], classWordProb = [], isTrained = False \<rparr>"

text \<open>\<open>obj[key] = v\<close> on a table: replace the value of an existing key, or append the key.\<close>

fun assign :: "('k \<times> 'v) list \<Rightarrow> 'k \<Rightarrow> 'v \<Rightarrow> ('k \<times> 'v) list" where
  "assign [] k v = [(k, v)]"
| "assign ((k1, v1) # rest) k v = (if k1 = k then (k1, v) # rest else (k1, v1) # assign rest k v)"

text \<open>
  The character classes of the regular expressions, which carry no \<open>u\<close> flag: \<open>\w\<close> is
  \<open>[A-Za-z0-9_]\<close>, \<open>\d\<close> is \<open>[0-9]\<close>, and \<open>\s\<close> below code unit 256 is tab, line feed,
  vertical tab, form feed, carriage return, space and the no-break space.
\<close>

definition isWordChar :: "char \<Rightarrow> bool" where
  "isWordChar c =
     (c \<in> set ''abcdefghijklmnopqrstuvwxyzABCDEFGHIJKLMNOPQRSTUVWXYZ0123456789_'')"

definition isDigit :: "char \<Rightarrow> bool" where
  "isDigit c = (c \<in> set ''0123456789'')"

definition isSpaceChar :: "char \<Rightarrow> bool" where
  "isSpaceChar c =
     (c \<in> set [CHR 0x09, CHR 0x0A, CHR 0x0B, CHR 0x0C, CHR 0x0D, CHR 0x20, CHR 0xA0])"

text \<open>\<open>cleaned.split(/\s+/).filter((w) => w.length > 0)\<close>: the maximal runs without white space.\<close>

fun splitWords :: "string \<Rightarrow> string \<Rightarrow> string list" where
  "splitWords [] cur = (if cur = [] then [] else [cur])"
| "splitWords (c # cs) cur =
     (if isSpaceChar c
      then (if cur = [] then splitWords cs [] else cur # splitWords cs [])
      else splitWords cs (cur @ [c]))"

fun bigrams :: "string list \<Rightarrow> string list" where
  "bigrams (w1 # w2 # ws) = (w1 @ ''_'' @ w2) # bigrams (w2 # ws)"
| "bigrams ws = []"

definition extractFeatures :: "string \<Rightarrow> string list" where
  "extractFeatures text =
     (let cleaned = filter (\<lambda>c. isWordChar c \<or> isSpaceChar c) (toLowerCase text);
          ws = splitWords cleaned []
      in ws @ bigrams ws)"

text \<open>
  \<open>train\<close>. The examples are grouped by class; the prior of a class is its share of
  the examples; the features of a class are those of its texts joined by spaces. The
  vocabulary grows class by class, so the smoothing denominator of a class uses the
  vocabulary of the classes trained so far. The training texts hold no feature named
  like a property of \<open>Object.prototype\<close>, so \<open>featureFreq[feature] || 0\<close> is the count so
  far.
\<close>

fun groupExamples :: "example list \<Rightarrow> (string \<times> string list) list \<Rightarrow> (string \<times> string list) list" where
  "groupExamples [] classExamples = classExamples"
| "groupExamples (e # es) classExamples =
     groupExamples es
       (assign classExamples (example_intent e)
          ((case map_of classExamples (example_intent e) of None \<Rightarrow> [] | Some ts \<Rightarrow> ts)
           @ [example_text e]))"

fun joinWith :: "string \<Rightarrow> string list \<Rightarrow> string" where
  "joinWith sep [] = []"
| "joinWith sep [t] = t"
| "joinWith sep (t # ts) = t @ sep @ joinWith sep ts"

fun countFeatures :: "string list \<Rightarrow> (string \<times> nat) list \<Rightarrow> (string \<times> nat) list" where
  "countFeatures [] featureFreq = featureFreq"
| "countFeatures (f # fs) featureFreq =
     countFeatures fs
       (assign featureFreq f ((case map_of featureFreq f of None \<Rightarrow> 0 | Some n \<Rightarrow> n) + 1))"

definition trainClass ::
  "string \<times> string list \<Rightarrow> string list \<times> (string \<times> (string \<times> real) list) list
     \<Rightarrow> string list \<times> (string \<times> (string \<times> real) list) list" where
  "trainClass ce st =
     (let className = fst ce;
          features = extractFeatures (joinWith '' '' (snd ce));
          featureFreq = countFeatures features [];
          vocab = fold List.insert features (fst st);
          totalFeatures = length features;
          probs = map (\<lambda>(feature, n).
                         (feature, (real n + 1) / (real totalFeatures + real (length vocab))))
                      featureFreq
      in (vocab, assign (snd st) className probs))"

definition train :: "classifier \<Rightarrow> example list \<Rightarrow> classifier" where
  "train c trainingData =
     (let classExamples = groupExamples trainingData [];
          totalExamples = length trainingData;
          priors = fold (\<lambda>ce pr. assign pr (fst ce)
                            (real (length (snd ce)) / real totalExamples))
                     classExamples (classPrior c);
          trained = fold trainClass classExamples (vocabulary c, classWordProb c)
      in c\<lparr> vocabulary := fst trained, classPrior := priors,
            classWordProb := snd trained, isTrained := True \<rparr>)"

text \<open>
  \<open>this.classWordProb[className][feature] || 1 / (1 + this.vocabulary.size)\<close>. The
  table is a plain object, so a feature that it does not hold but that names a
  property of \<open>Object.prototype\<close> reads a function or an object: truthy, and
  \<open>Math.log\<close> of it is \<open>NaN\<close>. Every class of \<open>classPrior\<close> has its table in
  \<open>classWordProb\<close>, since \<open>train\<close> assigns both.
\<close>

definition objectPrototypeNames :: "string list" where
  "objectPrototypeNames =
     [''constructor'', ''__defineGetter__'', ''__defineSetter__'', ''hasOwnProperty'',
      ''__lookupGetter__'', ''__lookupSetter__'', ''isPrototypeOf'',
      ''propertyIsEnumerable'', ''toString'', ''valueOf'', ''__proto__'', ''toLocaleString'']"

definition addFeature :: "classifier \<Rightarrow> string \<Rightarrow> string \<Rightarrow> jsnum \<Rightarrow> jsnum" where
  "addFeature c className feature s =
     (case map_of (case map_of (classWordProb c) className of None \<Rightarrow> [] | Some t \<Rightarrow> t) feature of
        Some prob \<Rightarrow> js_add_log s prob
      | None \<Rightarrow>
          if feature \<in> set objectPrototypeNames then NaN
          else js_add_log s (1 / (1 + real (length (vocabulary c)))))"

text \<open>The loop that picks the class with the highest score, from \<open>(null, -Infinity)\<close>.\<close>

fun bestLoop :: "(string \<times> jsnum) list \<Rightarrow> string option \<times> jsnum \<Rightarrow> string option \<times> jsnum" where
  "bestLoop [] best = best"
| "bestLoop ((className, score) # rest) best =
     bestLoop rest (if js_gt score (snd best) then (Some className, score) else best)"

record prediction =
  pred_intent :: "string option"
  pred_confidence :: jsnum
  pred_scores :: "(string \<times> jsnum) list"

text \<open>
  \<open>minScore === maxScore ? 0.5 : (bestScore - minScore) / (maxScore - minScore)\<close>. With
  three finite numbers this is the arithmetic of the reals. Otherwise a score is
  \<open>NaN\<close>, which makes minimum and maximum \<open>NaN\<close>, or there is no class at all, which
  leaves \<open>-Infinity\<close>, \<open>Infinity\<close> and \<open>-Infinity\<close>: the comparison is false and the
  quotient is \<open>NaN\<close> in both cases.
\<close>

definition normalize :: "jsnum \<Rightarrow> jsnum \<Rightarrow> jsnum \<Rightarrow> jsnum" where
  "normalize bestScore minScore maxScore =
     (case (bestScore, minScore, maxScore) of
        (Num b, Num lo, Num hi) \<Rightarrow> if lo = hi then Num 0.5 else Num ((b - lo) / (hi - lo))
      | _ \<Rightarrow> NaN)"

definition predict :: "classifier \<Rightarrow> string \<Rightarrow> error + prediction" where
  "predict c text =
     (if \<not> isTrained c then Inl ModelNotTrained
      else
        let features = extractFeatures text;
            scs = map (\<lambda>(className, prior).
                         (className, fold (addFeature c className) features (Num (ln prior))))
                      (classPrior c);
            best = bestLoop scs (None, NegInfinity);
            allScores = map snd scs;
            maxScore = Math_max allScores;
            minScore = Math_min allScores
        in Inr \<lparr> pred_intent = fst best,
                 pred_confidence = normalize (snd best) minScore maxScore,
                 pred_scores = scs \<rparr>)"

text \<open>The module trains one classifier when it is loaded.\<close>

definition mlClassifier :: classifier where
  "mlClassifier = train NaiveBayesIntentClassifier_new TRAINING_DATA"

section \<open>Entity recognition (ml/entityRecognition.js)\<close>

record entities =
  locations :: "string list"
  organizations :: "string list"
  dates :: "string list"
  currencies :: "string list"
  numbers :: "string list"
  topics :: "string list"

text \<open>
  Each \<open>while ((match = regex.exec(text)) !== null)\<close> loop walks the text with a global
  regular expression: the leftmost match at or after \<open>lastIndex\<close> is taken, its text is
  pushed unless already present, and the search resumes behind it. A matcher gives
  the length of the match that starts at the head of the remaining text, if there is
  one, from the character before it (for \<open>\b\<close>) and the remaining text. All four
  expressions match at least one character.
\<close>

function scanMatches ::
  "(char option \<Rightarrow> string \<Rightarrow> nat option) \<Rightarrow> char option \<Rightarrow> string \<Rightarrow> string list \<Rightarrow> string list" where
  "scanMatches m prev [] found = found"
| "scanMatches m prev (c # cs) found =
     (case m prev (c # cs) of
        None \<Rightarrow> scanMatches m (Some c) cs found
      | Some n \<Rightarrow>
          let tok = c # take (n - 1) cs
          in scanMatches m (Some (last tok)) (drop (n - 1) cs)
               (if tok \<in> set found then found else found @ [tok]))"
  by pat_completeness auto
termination
  by (relation "measure (\<lambda>(m, prev, s, found). length s)") auto

text \<open>\<open>\b\<close> between the character before and the character after a position.\<close>

definition isWord :: "char option \<Rightarrow> bool" where
  "isWord x = (case x of None \<Rightarrow> False | Some c \<Rightarrow> isWordChar c)"

definition boundary :: "char option \<Rightarrow> string \<Rightarrow> bool" where
  "boundary prev rest = (isWord prev \<noteq> isWord (case rest of [] \<Rightarrow> None | c # cs \<Rightarrow> Some c))"

definition isUpper :: "char \<Rightarrow> bool" where
  "isUpper c = (c \<in> set ''ABCDEFGHIJKLMNOPQRSTUVWXYZ'')"

definition isLower :: "char \<Rightarrow> bool" where
  "isLower c = (c \<in> set ''abcdefghijklmnopqrstuvwxyz'')"

text \<open>
  \<open>/\b([A-Z][a-z]+ (?:City|Country|State|Region|Island)?)\b/g\<close>: a capital, the longest
  run of small letters, one space, then the first of the five words that is followed
  by a word boundary, or else nothing, if a word character follows the space.
\<close>

fun firstSuffix :: "string list \<Rightarrow> string \<Rightarrow> nat option" where
  "firstSuffix [] rest = None"
| "firstSuffix (w # ws) rest =
     (if prefix w rest \<and> boundary (Some (last w)) (drop (length w) rest)
      then Some (length w) else firstSuffix ws rest)"

definition matchLocation :: "char option \<Rightarrow> string \<Rightarrow> nat option" where
  "matchLocation prev s =
     (case s of
        [] \<Rightarrow> None
      | c # cs \<Rightarrow>
          let small = takeWhile isLower cs;
              after = drop (length small) cs
          in if boundary prev s \<and> isUpper c \<and> small \<noteq> [] \<and> prefix '' '' after
             then (case firstSuffix [''City'', ''Country'', ''State'', ''Region'', ''Island''] (tl after) of
                     Some k \<Rightarrow> Some (1 + length small + 1 + k)
                   | None \<Rightarrow>
                       if boundary (Some CHR '' '') (tl after)
                       then Some (1 + length small + 1) else None)
             else None)"

text \<open>
  The currency expression: one of the signs dollar, euro, pound, yen, then white space,
  at least one digit or comma, an optional dot, digits. Pound and yen are the code
  units 0xA3 and 0xA5; the euro sign is code unit 0x20AC, outside the model's
  characters.
\<close>

definition matchCurrency :: "char option \<Rightarrow> string \<Rightarrow> nat option" where
  "matchCurrency prev s =
     (case s of
        [] \<Rightarrow> None
      | c # cs \<Rightarrow>
          let spaces = takeWhile isSpaceChar cs;
              r1 = drop (length spaces) cs;
              amount = takeWhile (\<lambda>d. isDigit d \<or> d = CHR '','') r1;
              r2 = drop (length amount) r1;
              dot = (if prefix ''.'' r2 then 1 else 0);
              decimals = takeWhile isDigit (drop dot r2)
          in if c \<in> set [CHR ''$'', CHR 0xA3, CHR 0xA5] \<and> amount \<noteq> []
             then Some (1 + length spaces + length amount + dot + length decimals)
             else None)"

text \<open>
  \<open>/\b\d+(?:\.\d+)?\b/g\<close>: the longest run of digits, then a dot and digits if a word
  boundary follows them, else the run alone if a word boundary follows it.
\<close>

definition matchNumber :: "char option \<Rightarrow> string \<Rightarrow> nat option" where
  "matchNumber prev s =
     (let whole = takeWhile isDigit s;
          r1 = drop (length whole) s;
          decimals = takeWhile isDigit (tl r1);
          r2 = drop (length decimals) (tl r1)
      in if boundary prev s \<and> whole \<noteq> []
         then (if prefix ''.'' r1 \<and> decimals \<noteq> [] \<and> boundary (Some (last decimals)) r2
               then Some (length whole + 1 + length decimals)
               else if boundary (Some (last whole)) r1 then Some (length whole)
               else None)
         else None)"

text \<open>
  The date expression, with the \<open>i\<close> flag: a month name in any case, or one or two
  digits, \<open>-\<close> or \<open>/\<close>, one or two digits, \<open>-\<close> or \<open>/\<close>, two to four digits; a word
  boundary on both sides.
\<close>

definition monthNames :: "string list" where
  "monthNames = [''january'', ''february'', ''march'', ''april'', ''may'', ''june'', ''july'',
                 ''august'', ''september'', ''october'', ''november'', ''december'']"

fun firstMonth :: "string list \<Rightarrow> string \<Rightarrow> nat option" where
  "firstMonth [] s = None"
| "firstMonth (w # ws) s =
     (if prefix w (toLowerCase s) \<and> boundary (Some (last w)) (drop (length w) s)
      then Some (length w) else firstMonth ws s)"

definition isDateSep :: "string \<Rightarrow> bool" where
  "isDateSep r = (prefix ''-'' r \<or> prefix ''/'' r)"

definition matchNumericDate :: "string \<Rightarrow> nat option" where
  "matchNumericDate s =
     (let d1 = takeWhile isDigit s;
          r1 = drop (length d1) s;
          d2 = takeWhile isDigit (tl r1);
          r2 = drop (length d2) (tl r1);
          d3 = takeWhile isDigit (tl r2);
          r3 = drop (length d3) (tl r2)
      in if 1 \<le> length d1 \<and> length d1 \<le> 2 \<and> isDateSep r1
            \<and> 1 \<le> length d2 \<and> length d2 \<le> 2 \<and> isDateSep r2
            \<and> 2 \<le> length d3 \<and> length d3 \<le> 4 \<and> boundary (Some (last d3)) r3
         then Some (length d1 + 1 + length d2 + 1 + length d3)
         else None)"

definition matchDate :: "char option \<Rightarrow> string \<Rightarrow> nat option" where
  "matchDate prev s =
     (if boundary prev s
      then (case firstMonth monthNames s of
              Some k \<Rightarrow> Some k
            | None \<Rightarrow> matchNumericDate s)
      else None)"

definition extractEntities :: "string \<Rightarrow> entities" where
  "extractEntities text =
     \<lparr> locations = scanMatches matchLocation None text [],
       organizations = [],
       dates = scanMatches matchDate None text [],
       currencies = scanMatches matchCurrency None text [],
       numbers = scanMatches matchNumber None text [],
       topics = [] \<rparr>"

definition scoreConfidenceByEntities :: "entities \<Rightarrow> real" where
  "scoreConfidenceByEntities es =
     (let entityCount = length (locations es) + length (organizations es) + length (dates es)
                        + length (currencies es) + length (numbers es) + length (topics es);
          s1 = 0.5 + min (real entityCount * 0.05) 0.3;
          s2 = (if length (locations es) > 0 then s1 + 0.05 else s1);
          s3 = (if length (dates es) > 0 then s2 + 0.05 else s2);
          s4 = (if length (currencies es) > 0 then s3 + 0.05 else s3)
      in min s4 1.0)"

section \<open>Fusion: \<open>predictIntentML\<close> (ml/intentModel.js) and \<open>detectIntent\<close> (services/intentDetector.js)\<close>

text \<open>
  The result object. Its \<open>scores\<close> are those of the path that supplied the category;
  \<open>type\<close>, \<open>mlConfidence\<close>, \<open>error\<close> and \<open>entities\<close> are present on some paths only.
  A statistical category can be \<open>null\<close> and a statistical confidence \<open>NaN\<close>.
\<close>

datatype scoreTable = RuleScores scores | ModelScores "(string \<times> jsnum) list"

record intentResult =
  result_intent :: "string option"
  result_confidence :: jsnum
  result_method :: string
  result_scores :: scoreTable
  result_type :: "string option"
  result_mlConfidence :: "jsnum option"
  result_error :: "string option"
  result_entities :: "entities option"

text \<open>\<open>{ ...ruleBased, method: "rule-based", ... }\<close>\<close>

definition fromRuleBased :: "ruleResult \<Rightarrow> jsnum option \<Rightarrow> string option \<Rightarrow> intentResult" where
  "fromRuleBased ruleBased mlConf err =
     \<lparr> result_intent = Some (rule_intent ruleBased),
       result_confidence = Num (rule_confidence ruleBased),
       result_method = ''rule-based'',
       result_scores = RuleScores (rule_scores ruleBased),
       result_type = rule_type ruleBased,
       result_mlConfidence = mlConf,
       result_error = err,
       result_entities = None \<rparr>"

text \<open>
  \<open>predictIntentML(message, ruleBased)\<close>: the whole body is inside \<open>try\<close>, and the
  \<open>catch\<close> branch returns the rule-based result with the error marker.
\<close>

definition predictIntentML :: "classifier \<Rightarrow> string \<Rightarrow> ruleResult \<Rightarrow> intentResult" where
  "predictIntentML c message ruleBased =
     (case predict c message of
        Inl err \<Rightarrow> fromRuleBased ruleBased None (Some ''ML prediction failed'')
      | Inr mlResult \<Rightarrow>
          if js_lt (pred_confidence mlResult) (Num 0.6)
          then fromRuleBased ruleBased (Some (pred_confidence mlResult)) None
          else \<lparr> result_intent = pred_intent mlResult,
                 result_confidence = pred_confidence mlResult,
                 result_method = ''ml'',
                 result_scores = ModelScores (pred_scores mlResult),
                 result_type = None,
                 result_mlConfidence = None,
                 result_error = None,
                 result_entities = None \<rparr>)"

text \<open>
  \<open>detectIntent(message)\<close>. The call of \<open>detectIntentRuleBased\<close> stands outside every
  \<open>try\<close>, so an exception it raises leaves \<open>detectIntent\<close> as well.
\<close>

definition detectIntent :: "string \<Rightarrow> error + intentResult" where
  "detectIntent message =
     (let es = extractEntities message;
          entityScore = scoreConfidenceByEntities es
      in case detectIntentRuleBased message of
           Inl err \<Rightarrow> Inl err
         | Inr ruleBased \<Rightarrow>
             let result = predictIntentML mlClassifier message ruleBased
             in Inr (result\<lparr> result_entities := Some es,
                             result_confidence := blend (result_confidence result) entityScore \<rparr>))"

section \<open>Properties of the caches\<close>

text \<open>
  \<open>CacheManager.get\<close> does what C4 asks: strictly after the expiry instant it returns
  nothing and the entry is gone from the store.
\<close>

lemma CacheManager_get_expired:
  assumes "cache key = Some cached" and "now > expiryTime cached"
  shows "fst (CacheManager_get cache key now) = None"
    and "snd (CacheManager_get cache key now) key = None"
  using assms by (simp_all add: CacheManager_get_def)

lemma CacheManager_get_fresh:
  assumes "cache key = Some cached" and "now \<le> expiryTime cached"
  shows "CacheManager_get cache key now = (Some (cached_value cached), cache)"
  using assms by (simp add: CacheManager_get_def)

text \<open>
  \<open>DistributedCache.get\<close> never returns an expired local value, but it never changes
  the local map either.
\<close>

lemma DistributedCache_get_keeps_store: "snd (DistributedCache_get c key now) = c"
  by (simp add: DistributedCache_get_def DistributedCache_getLocal_def
      split: option.split sum.split)

lemma DistributedCache_get_expired_local:
  assumes "redis c = None" and "localCache c key = Some lv" and "now > expiresAt lv"
  shows "fst (DistributedCache_get c key now) = None"
  using assms by (simp add: DistributedCache_get_def DistributedCache_getLocal_def)

text \<open>
  Claim C4 (fails on the code for \<open>DistributedCache\<close>). A local-only distributed cache
  holds an entry for key k that expired at instant 1000; \<open>get\<close> at instant 1001 returns
  nothing, and the stale entry is still in the local map afterwards. The same entry in
  a \<open>CacheManager\<close> is evicted by the same \<open>get\<close>.
\<close>

theorem DistributedCache_get_leaves_stale_entry:
  "fst (DistributedCache_get
          \<lparr> localCache = [''k'' \<mapsto> \<lparr> local_value = ''v'', expiresAt = 1000 \<rparr>], redis = None \<rparr>
          ''k'' 1001) = None
   \<and> localCache (snd (DistributedCache_get
          \<lparr> localCache = [''k'' \<mapsto> \<lparr> local_value = ''v'', expiresAt = 1000 \<rparr>], redis = None \<rparr>
          ''k'' 1001)) ''k'' = Some \<lparr> local_value = ''v'', expiresAt = 1000 \<rparr>
   \<and> CacheManager_get [''k'' \<mapsto> \<lparr> cached_value = ''v'', expiryTime = 1000 \<rparr>] ''k'' 1001
        = (None, Map.empty)"
  by (simp add: DistributedCache_get_def DistributedCache_getLocal_def CacheManager_get_def)

section \<open>Properties of the rate limiter\<close>

lemma scopeOf_session: "scopeOf ''session'' = Some Session"
  by (simp add: scopeOf_def capitalize_def toUpperCaseChar_def)

lemma scopeOf_user: "scopeOf ''user'' = Some User"
  by (simp add: scopeOf_def capitalize_def toUpperCaseChar_def)

lemma scopeOf_IP: "scopeOf ''IP'' = Some IP"
  by (simp add: scopeOf_def capitalize_def toUpperCaseChar_def)

lemma trackerOf_trackerSet_same: "trackerOf (trackerSet s sc k r) sc k = Some r"
  by (cases sc) simp_all

lemma limits_trackerSet: "limits (trackerSet s sc k r) = limits s"
  by (cases sc) simp_all

lemma blocklist_trackerSet: "blocklist (trackerSet s sc k r) = blocklist s"
  by (cases sc) simp_all

lemma limitOf_trackerSet: "limitOf (trackerSet s sc k r) sc' = limitOf s sc'"
  by (cases sc; cases sc') simp_all

lemma trackerOf_addToBlocklist: "trackerOf (addToBlocklist s k d t) sc = trackerOf s sc"
  by (cases sc) (simp_all add: addToBlocklist_def)

lemma limitOf_addToBlocklist: "limitOf (addToBlocklist s k d t) sc = limitOf s sc"
  by (cases sc) (simp_all add: addToBlocklist_def)

lemma blocklist_addToBlocklist: "blocklist (addToBlocklist s k d t) k = Some (t + d)"
  by (simp add: addToBlocklist_def)

text \<open>One call inside a running window.\<close>

lemma checkLimit_in_window:
  assumes sc: "scopeOf type = Some sc"
      and rec: "trackerOf s sc identifier = Some r"
      and win: "\<not> now - firstRequest r > limit_window (limitOf s sc)"
  shows "allowed (fst (checkLimit s identifier type now nowBlock)) = (requests r + 1 \<le> dynamic r)"
    and "retryAfter (fst (checkLimit s identifier type now nowBlock)) =
           (if requests r + 1 \<le> dynamic r then None else Some 300)"
    and "trackerOf (snd (checkLimit s identifier type now nowBlock)) sc identifier =
           Some (r\<lparr>requests := requests r + 1\<rparr>)"
    and "limitOf (snd (checkLimit s identifier type now nowBlock)) sc = limitOf s sc"
    and "blocklist (snd (checkLimit s identifier type now nowBlock)) identifier =
           (if requests r + 1 \<le> dynamic r then blocklist s identifier
            else Some (nowBlock + 300000))"
  using assms
  by (simp_all add: checkLimit_def Let_def trackerOf_trackerSet_same limitOf_trackerSet
      blocklist_trackerSet trackerOf_addToBlocklist limitOf_addToBlocklist
      blocklist_addToBlocklist)

lemma checkLimit_fresh:
  assumes sc: "scopeOf type = Some sc"
      and rec: "trackerOf s sc identifier = None \<or>
                (\<exists>r. trackerOf s sc identifier = Some r \<and> now - firstRequest r > limit_window (limitOf s sc))"
  shows "allowed (fst (checkLimit s identifier type now nowBlock)) = (1 \<le> limit_requests (limitOf s sc))"
    and "trackerOf (snd (checkLimit s identifier type now nowBlock)) sc identifier =
           Some \<lparr> requests = 1, firstRequest = now, dynamic = limit_requests (limitOf s sc) \<rparr>"
    and "limitOf (snd (checkLimit s identifier type now nowBlock)) sc = limitOf s sc"
  using assms
  by (auto simp add: checkLimit_def Let_def trackerOf_trackerSet_same limitOf_trackerSet
      blocklist_trackerSet trackerOf_addToBlocklist limitOf_addToBlocklist
      blocklist_addToBlocklist)

lemma checkLimits_length: "length (fst (checkLimits s identifier type ts)) = length ts"
  by (induction ts arbitrary: s) (simp_all add: split_def Let_def)

lemma checkLimits_in_window:
  assumes sc: "scopeOf type = Some sc"
      and rec: "trackerOf s sc identifier = Some r"
      and win: "\<forall>t\<in>set ts. \<not> fst t - firstRequest r > limit_window (limitOf s sc)"
  shows "(\<forall>i<length ts. allowed (fst (checkLimits s identifier type ts) ! i)
             = (requests r + i + 1 \<le> dynamic r))
       \<and> trackerOf (snd (checkLimits s identifier type ts)) sc identifier
             = Some (r\<lparr>requests := requests r + length ts\<rparr>)
       \<and> limitOf (snd (checkLimits s identifier type ts)) sc = limitOf s sc"
  using rec win
proof (induction ts arbitrary: s r)
  case Nil
  then show ?case by simp
next
  case (Cons t ts)
  let ?c = "checkLimit s identifier type (fst t) (snd t)"
  let ?r1 = "r\<lparr>requests := requests r + 1\<rparr>"
  have inw: "\<not> fst t - firstRequest r > limit_window (limitOf s sc)"
    using Cons.prems(2) by simp
  have a: "allowed (fst ?c) = (requests r + 1 \<le> dynamic r)"
    by (rule checkLimit_in_window(1)[OF sc Cons.prems(1) inw])
  have t1: "trackerOf (snd ?c) sc identifier = Some ?r1"
    by (rule checkLimit_in_window(3)[OF sc Cons.prems(1) inw])
  have l1: "limitOf (snd ?c) sc = limitOf s sc"
    by (rule checkLimit_in_window(4)[OF sc Cons.prems(1) inw])
  have w1: "\<forall>u\<in>set ts. \<not> fst u - firstRequest ?r1 > limit_window (limitOf (snd ?c) sc)"
    using Cons.prems(2) l1 by simp
  note ih = Cons.IH[OF t1 w1]
  have unf: "checkLimits s identifier type (t # ts) =
      (fst ?c # fst (checkLimits (snd ?c) identifier type ts),
       snd (checkLimits (snd ?c) identifier type ts))"
    by (simp add: split_def Let_def)
  have nth: "\<forall>i<length (t # ts). allowed (fst (checkLimits s identifier type (t # ts)) ! i)
             = (requests r + i + 1 \<le> dynamic r)"
  proof (intro allI impI)
    fix i assume "i < length (t # ts)"
    then show "allowed (fst (checkLimits s identifier type (t # ts)) ! i)
             = (requests r + i + 1 \<le> dynamic r)"
      using a ih by (cases i) (simp_all add: unf del: checkLimits.simps)
  qed
  show ?case using nth ih l1 by (simp add: unf del: checkLimits.simps)
qed



lemma checkLimit_retryAfter:
  "retryAfter (fst (checkLimit s identifier type now nowBlock)) =
     (if allowed (fst (checkLimit s identifier type now nowBlock)) then None else Some 300)"
  by (simp add: checkLimit_def Let_def split: option.split)


text \<open>
  Claim C7. A fresh identity in the session scope (no record yet, limit 50 per window
  of one hour): the first call and the 49 calls that follow it inside the window
  started by the first call are all allowed; one more call inside that window is
  denied, carries \<open>retryAfter = 300\<close> and puts the identity on the blocklist with an
  unblock instant 5 minutes after the clock reading of \<open>addToBlocklist\<close>; a call
  issued more than the window duration after the first call is allowed and leaves a
  new record with count 1, started at that call.
\<close>

theorem checkLimit_session_window:
  assumes fresh: "bySession (trackers s) identifier = None"
      and lim: "perSession (limits s) = \<lparr> limit_requests = 50, limit_window = 60 * 60 * 1000 \<rparr>"
      and len: "length ts = 49"
      and win: "\<forall>t\<in>set ts. fst t - t1 \<le> 60 * 60 * 1000"
      and win51: "t51 - t1 \<le> 60 * 60 * 1000"
      and late: "late - t1 > 60 * 60 * 1000"
  shows "(let (rs, s50) = checkLimits s identifier ''session'' ((t1, b1) # ts);
              (r51, s51) = checkLimit s50 identifier ''session'' t51 b51;
              (r52, s52) = checkLimit s51 identifier ''session'' late b52
          in length rs = 50 \<and> list_all allowed rs
             \<and> \<not> allowed r51 \<and> retryAfter r51 = Some 300
             \<and> blocklist s51 identifier = Some (b51 + 5 * 60 * 1000)
             \<and> allowed r52 \<and> retryAfter r52 = None
             \<and> bySession (trackers s52) identifier
                   = Some \<lparr> requests = 1, firstRequest = late, dynamic = 50 \<rparr>)"
proof -
  note sc = scopeOf_session
  let ?c1 = "checkLimit s identifier ''session'' t1 b1"
  let ?run = "checkLimits (snd ?c1) identifier ''session'' ts"
  let ?c51 = "checkLimit (snd ?run) identifier ''session'' t51 b51"
  let ?c52 = "checkLimit (snd ?c51) identifier ''session'' late b52"
  let ?r1 = "\<lparr> requests = 1, firstRequest = t1, dynamic = 50 \<rparr>"
  have L: "limitOf s Session = \<lparr> limit_requests = 50, limit_window = 60 * 60 * 1000 \<rparr>"
    using lim by simp
  have f0: "trackerOf s Session identifier = None \<or>
            (\<exists>r. trackerOf s Session identifier = Some r
                 \<and> t1 - firstRequest r > limit_window (limitOf s Session))"
    using fresh by simp
  have a1: "allowed (fst ?c1)"
    using checkLimit_fresh(1)[OF sc f0, of b1] L by simp
  have tr1: "trackerOf (snd ?c1) Session identifier = Some ?r1"
    using checkLimit_fresh(2)[OF sc f0, of b1] L by simp
  have l1: "limitOf (snd ?c1) Session = limitOf s Session"
    by (rule checkLimit_fresh(3)[OF sc f0])
  have w1: "\<forall>t\<in>set ts. \<not> fst t - firstRequest ?r1 > limit_window (limitOf (snd ?c1) Session)"
    using win l1 L by (simp add: not_less)
  note run = checkLimits_in_window[OF sc tr1 w1]
  have arun: "\<forall>i<length ts. allowed (fst ?run ! i)"
    using run len by simp
  have tr50: "trackerOf (snd ?run) Session identifier = Some (?r1\<lparr>requests := 50\<rparr>)"
    using run len by simp
  have l50: "limitOf (snd ?run) Session = limitOf s Session"
    using run l1 by simp
  have w51: "\<not> t51 - firstRequest (?r1\<lparr>requests := 50\<rparr>) > limit_window (limitOf (snd ?run) Session)"
    using win51 l50 L by simp
  have a51: "\<not> allowed (fst ?c51)"
    using checkLimit_in_window(1)[OF sc tr50 w51, of b51] by simp
  have ra51: "retryAfter (fst ?c51) = Some 300"
    using checkLimit_in_window(2)[OF sc tr50 w51, of b51] by simp
  have tr51: "trackerOf (snd ?c51) Session identifier = Some (?r1\<lparr>requests := 51\<rparr>)"
    using checkLimit_in_window(3)[OF sc tr50 w51, of b51] by simp
  have l51: "limitOf (snd ?c51) Session = limitOf s Session"
    using checkLimit_in_window(4)[OF sc tr50 w51, of b51] l50 by simp
  have b51: "blocklist (snd ?c51) identifier = Some (b51 + 5 * 60 * 1000)"
    using checkLimit_in_window(5)[OF sc tr50 w51, of b51] by simp
  have f52: "trackerOf (snd ?c51) Session identifier = None \<or>
            (\<exists>r. trackerOf (snd ?c51) Session identifier = Some r
                 \<and> late - firstRequest r > limit_window (limitOf (snd ?c51) Session))"
    using tr51 l51 L late by simp
  have a52: "allowed (fst ?c52)"
    using checkLimit_fresh(1)[OF sc f52, of b52] l51 L by simp
  have ra52: "retryAfter (fst ?c52) = None"
    using a52 by (simp add: checkLimit_retryAfter)
  have tr52: "bySession (trackers (snd ?c52)) identifier
                = Some \<lparr> requests = 1, firstRequest = late, dynamic = 50 \<rparr>"
    using checkLimit_fresh(2)[OF sc f52, of b52] l51 L by simp
  have unf: "checkLimits s identifier ''session'' ((t1, b1) # ts) = (fst ?c1 # fst ?run, snd ?run)"
    by (simp add: split_def Let_def)
  have lenrs: "length (fst ?c1 # fst ?run) = 50"
    using len by (simp add: checkLimits_length)
  have tl: "list_all allowed (fst ?run)"
    using arun by (simp add: list_all_length checkLimits_length)
  have all: "list_all allowed (fst ?c1 # fst ?run)"
    using a1 tl by simp
  show ?thesis
    unfolding unf Let_def split_def fst_conv snd_conv
    using lenrs all a51 ra51 b51 a52 ra52 tr52 by blast
qed

text \<open>The hypotheses of C7 hold for the limiter as constructed and 51 calls in one window.\<close>

theorem checkLimit_session_window_witness:
  "(let (rs, s50) = checkLimits AdvancedRateLimiter_new ''s1'' ''session''
                      ((0, 0) # replicate 49 (1000, 1000));
        (r51, s51) = checkLimit s50 ''s1'' ''session'' 2000 2001;
        (r52, s52) = checkLimit s51 ''s1'' ''session'' 3600001 3600001
    in length rs = 50 \<and> list_all allowed rs
       \<and> \<not> allowed r51 \<and> retryAfter r51 = Some 300
       \<and> blocklist s51 ''s1'' = Some (2001 + 5 * 60 * 1000)
       \<and> allowed r52 \<and> retryAfter r52 = None
       \<and> bySession (trackers s52) ''s1''
             = Some \<lparr> requests = 1, firstRequest = 3600001, dynamic = 50 \<rparr>)"
proof -
  have h1: "bySession (trackers AdvancedRateLimiter_new) ''s1'' = None"
    by (simp add: AdvancedRateLimiter_new_def)
  have h2: "perSession (limits AdvancedRateLimiter_new)
              = \<lparr> limit_requests = 50, limit_window = 60 * 60 * 1000 \<rparr>"
    by (simp add: AdvancedRateLimiter_new_def)
  have h3: "length (replicate 49 (1000 :: int, 1000 :: int)) = 49"
    by simp
  have h4: "\<forall>t\<in>set (replicate 49 (1000 :: int, 1000 :: int)). fst t - 0 \<le> 60 * 60 * 1000"
    by simp
  have h5: "(2000 :: int) - 0 \<le> 60 * 60 * 1000"
    by simp
  have h6: "(3600001 :: int) - 0 > 60 * 60 * 1000"
    by simp
  show ?thesis
    by (rule checkLimit_session_window [OF h1 h2 h3 h4 h5 h6])
qed

lemma checkLimit_step:
  assumes sc: "scopeOf type = Some sc"
  shows "\<exists>rec1. trackerOf (snd (checkLimit s identifier type now nowBlock)) sc identifier = Some rec1
           \<and> requests rec1 =
                 (case trackerOf s sc identifier of
                    None \<Rightarrow> 1
                  | Some r \<Rightarrow> if now - firstRequest r > limit_window (limitOf s sc)
                              then 1 else requests r + 1)
           \<and> allowed (fst (checkLimit s identifier type now nowBlock))
                 = (requests rec1 \<le> dynamic rec1)
           \<and> limitOf (snd (checkLimit s identifier type now nowBlock)) sc = limitOf s sc
           \<and> blocklist (snd (checkLimit s identifier type now nowBlock)) identifier =
                 (if requests rec1 \<le> dynamic rec1 then blocklist s identifier
                  else Some (nowBlock + 5 * 60 * 1000))"
  using sc
  by (simp add: checkLimit_def Let_def trackerOf_trackerSet_same limitOf_trackerSet
      blocklist_trackerSet trackerOf_addToBlocklist limitOf_addToBlocklist
      blocklist_addToBlocklist split: option.split)

text \<open>
  Claim C9. For a known scope, every \<open>checkLimit\<close> call leaves a record whose count
  is one more than the count of the window in force (a missing or expired record
  counts as 0), whether the call is allowed or denied. A denied call sets the
  identity's blocklist entry to 5 minutes after the clock reading of
  \<open>addToBlocklist\<close>. A denied call followed by another call inside the same window
  is denied again, its count grows by one more and the blocklist entry is replaced by
  5 minutes after the second call's reading.
\<close>

theorem checkLimit_denied_still_counts:
  assumes sc: "scopeOf type = Some sc"
      and c1: "checkLimit s identifier type now nowBlock = (res, s1)"
      and c2: "checkLimit s1 identifier type now2 nowBlock2 = (res2, s2)"
  shows "\<exists>rec1. trackerOf s1 sc identifier = Some rec1
           \<and> requests rec1 =
                 (case trackerOf s sc identifier of
                    None \<Rightarrow> 1
                  | Some r \<Rightarrow> if now - firstRequest r > limit_window (limitOf s sc)
                              then 1 else requests r + 1)
           \<and> (\<not> allowed res \<longrightarrow> blocklist s1 identifier = Some (nowBlock + 5 * 60 * 1000))
           \<and> (\<not> allowed res \<and> \<not> now2 - firstRequest rec1 > limit_window (limitOf s1 sc) \<longrightarrow>
                  \<not> allowed res2
                  \<and> trackerOf s2 sc identifier = Some (rec1\<lparr>requests := requests rec1 + 1\<rparr>)
                  \<and> blocklist s2 identifier = Some (nowBlock2 + 5 * 60 * 1000))"
proof -
  from checkLimit_step[OF sc, of s "identifier" now nowBlock] c1
  obtain rec1 where t1: "trackerOf s1 sc identifier = Some rec1"
    and q1: "requests rec1 =
                 (case trackerOf s sc identifier of
                    None \<Rightarrow> 1
                  | Some r \<Rightarrow> if now - firstRequest r > limit_window (limitOf s sc)
                              then 1 else requests r + 1)"
    and a1: "allowed res = (requests rec1 \<le> dynamic rec1)"
    and b1: "blocklist s1 identifier =
                 (if requests rec1 \<le> dynamic rec1 then blocklist s identifier
                  else Some (nowBlock + 5 * 60 * 1000))"
    by auto
  have d1: "\<not> allowed res \<longrightarrow> blocklist s1 identifier = Some (nowBlock + 5 * 60 * 1000)"
    using a1 b1 by simp
  have d2: "\<not> allowed res \<and> \<not> now2 - firstRequest rec1 > limit_window (limitOf s1 sc) \<longrightarrow>
                  \<not> allowed res2
                  \<and> trackerOf s2 sc identifier = Some (rec1\<lparr>requests := requests rec1 + 1\<rparr>)
                  \<and> blocklist s2 identifier = Some (nowBlock2 + 5 * 60 * 1000)"
  proof (intro impI, elim conjE)
    assume den: "\<not> allowed res"
       and win: "\<not> now2 - firstRequest rec1 > limit_window (limitOf s1 sc)"
    have over: "\<not> requests rec1 + 1 \<le> dynamic rec1"
      using den a1 by simp
    show "\<not> allowed res2
          \<and> trackerOf s2 sc identifier = Some (rec1\<lparr>requests := requests rec1 + 1\<rparr>)
          \<and> blocklist s2 identifier = Some (nowBlock2 + 5 * 60 * 1000)"
      using checkLimit_in_window(1,3,5)[OF sc t1 win, of nowBlock2] c2 over
      by simp
  qed
  show ?thesis
    using t1 q1 d1 d2 by blast
qed


text \<open>
  The hypotheses of C9 at a session whose window already holds 50 of 50 requests: the
  51st and the 52nd call are both denied, the count goes to 51 and 52, and the unblock
  instant moves from 300011 to 300021.
\<close>

theorem checkLimit_denied_still_counts_witness:
  "(let S = trackerSet AdvancedRateLimiter_new Session ''s1''
              \<lparr> requests = 50, firstRequest = 0, dynamic = 50 \<rparr>;
        (res, s1) = checkLimit S ''s1'' ''session'' 10 11;
        (res2, s2) = checkLimit s1 ''s1'' ''session'' 20 21
    in \<not> allowed res
       \<and> map_option requests (bySession (trackers s1) ''s1'') = Some 51
       \<and> blocklist s1 ''s1'' = Some 300011
       \<and> \<not> allowed res2
       \<and> map_option requests (bySession (trackers s2) ''s1'') = Some 52
       \<and> blocklist s2 ''s1'' = Some 300021)"
proof -
  define S where "S = trackerSet AdvancedRateLimiter_new Session ''s1''
                        \<lparr> requests = 50, firstRequest = 0, dynamic = 50 \<rparr>"
  define c1 where "c1 = checkLimit S ''s1'' ''session'' 10 11"
  define c2 where "c2 = checkLimit (snd c1) ''s1'' ''session'' 20 21"
  note sc = scopeOf_session
  have e1: "checkLimit S ''s1'' ''session'' 10 11 = (fst c1, snd c1)"
    by (simp add: c1_def)
  have e2: "checkLimit (snd c1) ''s1'' ''session'' 20 21 = (fst c2, snd c2)"
    by (simp add: c2_def)
  have t0: "trackerOf S Session ''s1'' = Some \<lparr> requests = 50, firstRequest = 0, dynamic = 50 \<rparr>"
    by (simp add: S_def)
  have l0: "limitOf S Session = \<lparr> limit_requests = 50, limit_window = 3600000 \<rparr>"
    by (simp add: S_def AdvancedRateLimiter_new_def)
  have w0: "\<not> 10 - firstRequest \<lparr> requests = 50, firstRequest = 0, dynamic = 50 \<rparr>
              > limit_window (limitOf S Session)"
    using l0 by simp
  have den: "\<not> allowed (fst c1)"
    using checkLimit_in_window(1)[OF sc t0 w0, of 11] by (simp add: c1_def)
  have l1: "limitOf (snd c1) Session = limitOf S Session"
    using checkLimit_in_window(4)[OF sc t0 w0, of 11] by (simp add: c1_def)
  obtain rec1 where r1: "trackerOf (snd c1) Session ''s1'' = Some rec1"
    and q1: "requests rec1 = 51"
    and b1: "blocklist (snd c1) ''s1'' = Some 300011"
    and nx: "\<not> 20 - firstRequest rec1 > limit_window (limitOf (snd c1) Session) \<longrightarrow>
               \<not> allowed (fst c2)
               \<and> trackerOf (snd c2) Session ''s1'' = Some (rec1\<lparr>requests := requests rec1 + 1\<rparr>)
               \<and> blocklist (snd c2) ''s1'' = Some 300021"
    using checkLimit_denied_still_counts [OF sc e1 e2] den t0 w0 by auto
  have f1: "firstRequest rec1 = 0"
    using checkLimit_in_window(3)[OF sc t0 w0, of 11] r1 by (auto simp add: c1_def)
  have w1: "\<not> 20 - firstRequest rec1 > limit_window (limitOf (snd c1) Session)"
    using f1 l1 l0 by simp
  have all: "\<not> allowed (fst c1)
       \<and> map_option requests (bySession (trackers (snd c1)) ''s1'') = Some 51
       \<and> blocklist (snd c1) ''s1'' = Some 300011
       \<and> \<not> allowed (fst c2)
       \<and> map_option requests (bySession (trackers (snd c2)) ''s1'') = Some 52
       \<and> blocklist (snd c2) ''s1'' = Some 300021"
    using den r1 q1 b1 nx w1 by simp
  show ?thesis
    using all unfolding Let_def split_def c2_def c1_def S_def .
qed

text \<open>
  Claim C8 (fails on the code). \<open>cleanup\<close> never touches the per-user and
  per-address trackers: a record created there by \<open>checkLimit\<close> at instant 0 is still
  tracked after a sweep one millisecond after its window has elapsed.
\<close>

theorem cleanup_keeps_expired_user_and_IP_records:
  "(\<forall>s now. byUser (trackers (cleanup s now)) = byUser (trackers s)
            \<and> byIP (trackers (cleanup s now)) = byIP (trackers s))
   \<and> (let s1 = snd (checkLimit AdvancedRateLimiter_new ''u1'' ''user'' 0 0);
           s2 = snd (checkLimit s1 ''10.0.0.1'' ''IP'' 0 0);
           s3 = cleanup s2 (60 * 60 * 1000 + 1)
       in byUser (trackers s3) ''u1'' = Some \<lparr> requests = 1, firstRequest = 0, dynamic = 100 \<rparr>
          \<and> byIP (trackers s3) ''10.0.0.1'' = Some \<lparr> requests = 1, firstRequest = 0, dynamic = 500 \<rparr>)"
  by (simp add: cleanup_def checkLimit_def scopeOf_user scopeOf_IP Let_def
      AdvancedRateLimiter_new_def)

text \<open>What the sweep does purge: the per-session records and the blocklist.\<close>

lemma cleanup_purges_session_and_blocklist:
  "(bySession (trackers (cleanup s now)) key = Some r \<longrightarrow>
      bySession (trackers s) key = Some r
      \<and> now - firstRequest r \<le> limit_window (perSession (limits s)))
   \<and> (blocklist (cleanup s now) key = Some blockTime \<longrightarrow>
      blocklist s key = Some blockTime \<and> now \<le> blockTime)"
  by (auto simp add: cleanup_def split: option.splits if_splits)

section \<open>Properties of the response merger\<close>

lemma findPrimary_None:
  "(findPrimary sources order = None) = list_all (\<lambda>src. \<not> succeeded sources src) order"
  by (induction order) (simp_all add: succeeded_def split: option.split)

lemma findPrimary_first:
  assumes "list_all (\<lambda>src. \<not> succeeded sources src) ps"
      and "sources p = Some r" and "success r"
  shows "findPrimary sources (ps @ p # qs) = Some (p, orDefault (confidence r) 0.8)"
  using assms
  by (induction ps) (simp_all add: succeeded_def split: option.splits)

lemma findPrimary_Some:
  assumes "findPrimary sources order = Some (p, c)"
  shows "\<exists>ps qs r. order = ps @ p # qs \<and> list_all (\<lambda>src. \<not> succeeded sources src) ps
            \<and> sources p = Some r \<and> success r \<and> c = orDefault (confidence r) 0.8"
  using assms
proof (induction order)
  case Nil
  then show ?case by simp
next
  case (Cons a order)
  show ?case
  proof (cases "succeeded sources a")
    case True
    then obtain r where r: "sources a = Some r" "success r"
      by (auto simp add: succeeded_def split: option.splits)
    with Cons.prems have "p = a" "c = orDefault (confidence r) 0.8"
      by simp_all
    with r have "a # order = [] @ p # order \<and> list_all (\<lambda>src. \<not> succeeded sources src) []
            \<and> sources p = Some r \<and> success r \<and> c = orDefault (confidence r) 0.8"
      by simp
    then show ?thesis by blast
  next
    case False
    then have "findPrimary sources order = Some (p, c)"
      using Cons.prems by (auto simp add: succeeded_def split: option.splits if_splits)
    from Cons.IH[OF this] obtain ps qs r where
      "order = ps @ p # qs" "list_all (\<lambda>src. \<not> succeeded sources src) ps"
      "sources p = Some r" "success r" "c = orDefault (confidence r) 0.8"
      by blast
    with False have "a # order = (a # ps) @ p # qs
            \<and> list_all (\<lambda>src. \<not> succeeded sources src) (a # ps)
            \<and> sources p = Some r \<and> success r \<and> c = orDefault (confidence r) 0.8"
      by simp
    then show ?thesis by blast
  qed
qed

lemma supplementary_Inr:
  assumes "contentPresent sources order"
  shows "supplementary sources primarySource order m =
           Inr (m\<lparr> sourceDetails := sourceDetails m @
                      map (supplementaryOf sources)
                        (filter (\<lambda>src. Some src \<noteq> primarySource \<and> succeeded sources src) order),
                    usedSources := usedSources m @
                      filter (\<lambda>src. Some src \<noteq> primarySource \<and> succeeded sources src) order \<rparr>)"
  using assms
proof (induction order arbitrary: m)
  case Nil
  then show ?case by simp
next
  case (Cons a order)
  from Cons.prems have rest: "contentPresent sources order"
    by (simp add: contentPresent_def)
  show ?case
  proof (cases "sources a")
    case None
    then show ?thesis
      using Cons.IH[OF rest] by (simp add: succeeded_def)
  next
    case (Some r)
    show ?thesis
    proof (cases "Some a \<noteq> primarySource \<and> success r")
      case True
      with Some Cons.prems obtain c where c: "content r = Some c"
        by (auto simp add: contentPresent_def)
      show ?thesis
        using True Some c Cons.IH[OF rest]
        by (simp add: succeeded_def supplementaryOf_def)
    next
      case False
      then show ?thesis
        using Some Cons.IH[OF rest] by (auto simp add: succeeded_def)
    qed
  qed
qed

lemma contentPresent_none:
  "list_all (\<lambda>src. \<not> succeeded sources src) order \<Longrightarrow> contentPresent sources order"
  by (induction order) (auto simp add: contentPresent_def succeeded_def split: option.splits)

lemma mergeResponses_none:
  assumes "list_all (\<lambda>src. \<not> succeeded sources src) (priorityOrder intent)"
  shows "mergeResponses sources query intent =
           Inr \<lparr> primaryResponse = Some '''', sourceDetails = [],
                 confidenceScore = 0, usedSources = [] \<rparr>"
proof -
  have f: "findPrimary sources (priorityOrder intent) = None"
    using assms by (simp add: findPrimary_None)
  have nil: "filter (succeeded sources) (priorityOrder intent) = []"
    using assms by (simp add: filter_empty_conv list_all_iff)
  show ?thesis
    by (simp add: mergeResponses_def Let_def f
        supplementary_Inr[OF contentPresent_none[OF assms]] nil)
qed

lemma mergeResponses_some:
  assumes wf: "contentPresent sources (priorityOrder intent)"
      and ord: "priorityOrder intent = ps @ p # qs"
      and first: "list_all (\<lambda>src. \<not> succeeded sources src) ps"
      and prim: "sources p = Some r" "success r"
  shows "mergeResponses sources query intent =
           Inr \<lparr> primaryResponse = content r,
                 sourceDetails =
                   \<lparr> source = p, detail_confidence = orDefault (confidence r) 0.8,
                     detail_content = None, detail_metadata = orEmpty (metadata r) \<rparr>
                   # map (supplementaryOf sources)
                       (filter (\<lambda>src. src \<noteq> p \<and> succeeded sources src) (priorityOrder intent)),
                 confidenceScore = orDefault (confidence r) 0.8,
                 usedSources =
                   p # filter (\<lambda>src. src \<noteq> p \<and> succeeded sources src) (priorityOrder intent) \<rparr>"
proof -
  have f: "findPrimary sources (priorityOrder intent) = Some (p, orDefault (confidence r) 0.8)"
    unfolding ord by (rule findPrimary_first[OF first prim])
  show ?thesis
    by (simp add: mergeResponses_def Let_def f prim supplementary_Inr[OF wf])
qed

lemma priorityOrder_set:
  "set (priorityOrder intent) = {''realtime'', ''rag'', ''pdf'', ''llm''}"
  by (auto simp add: priorityOrder_def)

lemma priorityOrder_distinct: "distinct (priorityOrder intent)"
  by (simp add: priorityOrder_def)

text \<open>
  Claim C5, as amended. Provided every successful source carries a content string,
  \<open>mergeResponses\<close> returns a result. If at least one of the four sources it scans
  (realtime, rag, pdf, llm) is successful, the primary response is the content of the
  first successful source of the intent's priority order, whatever that content is,
  and the confidence score is that source's confidence with 0.8 for a missing or zero
  one, which is strictly positive whenever the confidence is missing or lies in [0, 1].
  If none of the four is successful, the primary response is the empty string, the
  attribution list and the used-sources list are empty and the confidence score is 0.
\<close>

theorem mergeResponses_invariant:
  assumes wf: "contentPresent sources (priorityOrder intent)"
  shows "\<exists>m. mergeResponses sources query intent = Inr m \<and>
           (if succeeded sources ''realtime'' \<or> succeeded sources ''rag''
               \<or> succeeded sources ''pdf'' \<or> succeeded sources ''llm''
            then \<exists>ps p qs r.
                   priorityOrder intent = ps @ p # qs
                   \<and> list_all (\<lambda>src. \<not> succeeded sources src) ps
                   \<and> sources p = Some r \<and> success r
                   \<and> primaryResponse m = content r
                   \<and> confidenceScore m = orDefault (confidence r) 0.8
                   \<and> ((confidence r = None \<or> (\<exists>x. confidence r = Some x \<and> 0 \<le> x \<and> x \<le> 1))
                        \<longrightarrow> 0 < confidenceScore m)
            else primaryResponse m = Some '''' \<and> sourceDetails m = []
                 \<and> confidenceScore m = 0 \<and> usedSources m = [])"
proof (cases "findPrimary sources (priorityOrder intent)")
  case None
  then have none: "list_all (\<lambda>src. \<not> succeeded sources src) (priorityOrder intent)"
    by (simp add: findPrimary_None)
  then have "\<forall>src\<in>{''realtime'', ''rag'', ''pdf'', ''llm''}. \<not> succeeded sources src"
    unfolding list_all_iff priorityOrder_set .
  then have no: "\<not> (succeeded sources ''realtime'' \<or> succeeded sources ''rag''
               \<or> succeeded sources ''pdf'' \<or> succeeded sources ''llm'')"
    by simp
  show ?thesis
    using no by (simp add: mergeResponses_none[OF none])
next
  case (Some pc)
  obtain p c where pc: "pc = (p, c)" by (cases pc)
  from findPrimary_Some[OF Some[unfolded pc]] obtain ps qs r where
    ord: "priorityOrder intent = ps @ p # qs"
    and first: "list_all (\<lambda>src. \<not> succeeded sources src) ps"
    and prim: "sources p = Some r" "success r"
    by blast
  have "p \<in> set (priorityOrder intent)"
    by (simp add: ord)
  then have "p \<in> {''realtime'', ''rag'', ''pdf'', ''llm''}"
    unfolding priorityOrder_set .
  moreover have "succeeded sources p"
    using prim by (simp add: succeeded_def)
  ultimately have yes: "succeeded sources ''realtime'' \<or> succeeded sources ''rag''
               \<or> succeeded sources ''pdf'' \<or> succeeded sources ''llm''"
    by auto
  have pos: "(confidence r = None \<or> (\<exists>x. confidence r = Some x \<and> 0 \<le> x \<and> x \<le> 1))
                \<longrightarrow> 0 < orDefault (confidence r) 0.8"
    by (auto simp add: orDefault_def)
  let ?m = "\<lparr> primaryResponse = content r,
                 sourceDetails =
                   \<lparr> source = p, detail_confidence = orDefault (confidence r) 0.8,
                     detail_content = None, detail_metadata = orEmpty (metadata r) \<rparr>
                   # map (supplementaryOf sources)
                       (filter (\<lambda>src. src \<noteq> p \<and> succeeded sources src) (priorityOrder intent)),
                 confidenceScore = orDefault (confidence r) 0.8,
                 usedSources =
                   p # filter (\<lambda>src. src \<noteq> p \<and> succeeded sources src) (priorityOrder intent) \<rparr>"
  have m: "mergeResponses sources query intent = Inr ?m"
    by (rule mergeResponses_some[OF wf ord first prim])
  have body: "\<exists>ps p qs r.
                   priorityOrder intent = ps @ p # qs
                   \<and> list_all (\<lambda>src. \<not> succeeded sources src) ps
                   \<and> sources p = Some r \<and> success r
                   \<and> primaryResponse ?m = content r
                   \<and> confidenceScore ?m = orDefault (confidence r) 0.8
                   \<and> ((confidence r = None \<or> (\<exists>x. confidence r = Some x \<and> 0 \<le> x \<and> x \<le> 1))
                        \<longrightarrow> 0 < confidenceScore ?m)"
    using ord first prim pos
    by (intro exI[of _ ps] exI[of _ p] exI[of _ qs] exI[of _ r]) simp
  show ?thesis
    by (rule exI[of _ ?m], rule conjI, rule m, simp only: yes if_True, rule body)
qed

lemma source_supplementaryOf: "source (supplementaryOf sources src) = src"
  by (simp add: supplementaryOf_def supplementaryDetail_def split: option.split)

lemma map_source_supplementaryOf: "map (source \<circ> supplementaryOf sources) xs = xs"
  by (induction xs) (simp_all add: source_supplementaryOf)

lemma supplementaryOf_fields:
  assumes "sources src = Some r" and "content r = Some c"
  shows "detail_content (supplementaryOf sources src) = Some (take 100 c @ ''...'')"
    and "detail_confidence (supplementaryOf sources src) = orDefault (confidence r) 0.6"
  using assms by (simp_all add: supplementaryOf_def supplementaryDetail_def)

lemma supplementaryOf_preview_bounded:
  "case detail_content (supplementaryOf sources src) of
     None \<Rightarrow> sources src = None
   | Some c \<Rightarrow> length c \<le> 103"
  by (simp add: supplementaryOf_def supplementaryDetail_def split: option.split)

text \<open>
  Claim C6. Under the realtime intent, with the realtime source and the pdf source both
  successful, the realtime source is primary whatever the two confidences are: the
  primary response is its content and the score its confidence (0.8 if missing or 0).
  The attribution list is the primary entry, which has no content preview, followed by
  one supplementary entry for every other successful source in the order rag, pdf, llm;
  the pdf source is among them, with its content cut to the first 100 characters
  followed by three dots, and no preview is longer than 103 characters.
\<close>

theorem mergeResponses_priority_over_confidence:
  assumes rt: "sources ''realtime'' = Some r" "success r"
      and pdf: "sources ''pdf'' = Some d" "success d" "content d = Some c"
      and wf: "contentPresent sources (priorityOrder ''realtime'')"
  shows "\<exists>m. mergeResponses sources query ''realtime'' = Inr m
           \<and> primaryResponse m = content r
           \<and> confidenceScore m = orDefault (confidence r) 0.8
           \<and> map source (sourceDetails m)
                = ''realtime'' # filter (succeeded sources) [''rag'', ''pdf'', ''llm'']
           \<and> usedSources m = ''realtime'' # filter (succeeded sources) [''rag'', ''pdf'', ''llm'']
           \<and> detail_content (hd (sourceDetails m)) = None
           \<and> tl (sourceDetails m)
                = map (supplementaryOf sources) (filter (succeeded sources) [''rag'', ''pdf'', ''llm''])
           \<and> supplementaryOf sources ''pdf'' \<in> set (tl (sourceDetails m))
           \<and> detail_content (supplementaryOf sources ''pdf'') = Some (take 100 c @ ''...'')
           \<and> list_all (\<lambda>e. case detail_content e of None \<Rightarrow> False | Some p \<Rightarrow> length p \<le> 103)
                (tl (sourceDetails m))"
proof -
  have ord: "priorityOrder ''realtime'' = [] @ ''realtime'' # [''rag'', ''pdf'', ''llm'']"
    by (simp add: priorityOrder_def)
  have first: "list_all (\<lambda>src. \<not> succeeded sources src) []"
    by simp
  have flt: "filter (\<lambda>src. src \<noteq> ''realtime'' \<and> succeeded sources src) (priorityOrder ''realtime'')
               = filter (succeeded sources) [''rag'', ''pdf'', ''llm'']"
    by (simp add: priorityOrder_def)
  let ?rest = "filter (succeeded sources) [''rag'', ''pdf'', ''llm'']"
  let ?m = "\<lparr> primaryResponse = content r,
              sourceDetails =
                \<lparr> source = ''realtime'', detail_confidence = orDefault (confidence r) 0.8,
                  detail_content = None, detail_metadata = orEmpty (metadata r) \<rparr>
                # map (supplementaryOf sources) ?rest,
              confidenceScore = orDefault (confidence r) 0.8,
              usedSources = ''realtime'' # ?rest \<rparr>"
  have m: "mergeResponses sources query ''realtime'' = Inr ?m"
    using mergeResponses_some[OF wf ord first rt, of query] unfolding flt .
  have pdf_in: "''pdf'' \<in> set ?rest"
    using pdf by (simp add: succeeded_def)
  have mem: "supplementaryOf sources ''pdf'' \<in> set (map (supplementaryOf sources) ?rest)"
    using pdf_in by (simp only: set_map) (rule imageI)
  have prev: "detail_content (supplementaryOf sources ''pdf'') = Some (take 100 c @ ''...'')"
    using pdf(1) pdf(3) by (rule supplementaryOf_fields(1))
  have bound: "list_all (\<lambda>e. case detail_content e of None \<Rightarrow> False | Some p \<Rightarrow> length p \<le> 103)
                 (map (supplementaryOf sources) ?rest)"
  proof -
    have "\<And>src. src \<in> set ?rest \<Longrightarrow>
            (case detail_content (supplementaryOf sources src) of
               None \<Rightarrow> False | Some p \<Rightarrow> length p \<le> 103)"
    proof -
      fix src assume "src \<in> set ?rest"
      then have "succeeded sources src" by (simp del: filter.simps)
      then have "sources src \<noteq> None"
        by (auto simp add: succeeded_def split: option.splits)
      then show "case detail_content (supplementaryOf sources src) of
               None \<Rightarrow> False | Some p \<Rightarrow> length p \<le> 103"
        using supplementaryOf_preview_bounded[of sources src]
        by (auto split: option.splits)
    qed
    then show ?thesis
      unfolding list_all_iff by auto
  qed
  have ms: "map source (sourceDetails ?m) = ''realtime'' # ?rest"
    by (simp add: map_source_supplementaryOf del: filter.simps)
  have tl: "tl (sourceDetails ?m) = map (supplementaryOf sources) ?rest"
    by simp
  have fields: "primaryResponse ?m = content r
           \<and> confidenceScore ?m = orDefault (confidence r) 0.8
           \<and> map source (sourceDetails ?m) = ''realtime'' # ?rest
           \<and> usedSources ?m = ''realtime'' # ?rest
           \<and> detail_content (hd (sourceDetails ?m)) = None
           \<and> tl (sourceDetails ?m) = map (supplementaryOf sources) ?rest
           \<and> supplementaryOf sources ''pdf'' \<in> set (tl (sourceDetails ?m))
           \<and> detail_content (supplementaryOf sources ''pdf'') = Some (take 100 c @ ''...'')
           \<and> list_all (\<lambda>e. case detail_content e of None \<Rightarrow> False | Some p \<Rightarrow> length p \<le> 103)
                (tl (sourceDetails ?m))"
    unfolding tl using ms mem prev bound
    by (intro conjI) simp_all
  show ?thesis
    by (rule exI[of _ ?m], rule conjI, rule m, rule fields)
qed

text \<open>
  Claim C10. The defaults replace every falsy confidence, the number 0 as well as a
  missing one. Let the primary source be the first successful one of the priority
  order. If its confidence is missing or exactly 0, the confidence score and the
  primary entry's confidence are 0.8, whatever the other sources are. Every successful
  source later in the order whose confidence is missing or exactly 0 is attributed
  with confidence 0.6, whatever the confidence of the primary source is.
\<close>

theorem mergeResponses_zero_confidence_defaults:
  assumes wf: "contentPresent sources (priorityOrder intent)"
      and ord: "priorityOrder intent = ps @ p # qs"
      and first: "list_all (\<lambda>src. \<not> succeeded sources src) ps"
      and prim: "sources p = Some r" "success r"
  shows "\<exists>m. mergeResponses sources query intent = Inr m
           \<and> source (hd (sourceDetails m)) = p
           \<and> (confidence r = None \<or> confidence r = Some 0 \<longrightarrow>
                 confidenceScore m = 0.8 \<and> detail_confidence (hd (sourceDetails m)) = 0.8)
           \<and> (\<forall>src r'. src \<in> set qs \<and> sources src = Some r' \<and> success r'
                    \<and> (confidence r' = None \<or> confidence r' = Some 0) \<longrightarrow>
                 supplementaryOf sources src \<in> set (tl (sourceDetails m))
                 \<and> source (supplementaryOf sources src) = src
                 \<and> detail_confidence (supplementaryOf sources src) = 0.6)"
proof -
  let ?rest = "filter (\<lambda>s. s \<noteq> p \<and> succeeded sources s) (priorityOrder intent)"
  let ?m = "\<lparr> primaryResponse = content r,
              sourceDetails =
                \<lparr> source = p, detail_confidence = orDefault (confidence r) 0.8,
                  detail_content = None, detail_metadata = orEmpty (metadata r) \<rparr>
                # map (supplementaryOf sources) ?rest,
              confidenceScore = orDefault (confidence r) 0.8,
              usedSources = p # ?rest \<rparr>"
  have m: "mergeResponses sources query intent = Inr ?m"
    by (rule mergeResponses_some[OF wf ord first prim(1,2)])
  have d: "distinct (ps @ p # qs)"
    using priorityOrder_distinct[of intent] unfolding ord .
  have hd: "source (hd (sourceDetails ?m)) = p"
    by simp
  have primary: "confidence r = None \<or> confidence r = Some 0 \<longrightarrow>
                 confidenceScore ?m = 0.8 \<and> detail_confidence (hd (sourceDetails ?m)) = 0.8"
    by (auto simp add: orDefault_def)
  have others: "\<forall>src r'. src \<in> set qs \<and> sources src = Some r' \<and> success r'
                    \<and> (confidence r' = None \<or> confidence r' = Some 0) \<longrightarrow>
                 supplementaryOf sources src \<in> set (tl (sourceDetails ?m))
                 \<and> source (supplementaryOf sources src) = src
                 \<and> detail_confidence (supplementaryOf sources src) = 0.6"
  proof (intro allI impI, elim conjE)
    fix src r'
    assume inq: "src \<in> set qs" and s: "sources src = Some r'" and ok: "success r'"
       and falsy: "confidence r' = None \<or> confidence r' = Some 0"
    have ne: "src \<noteq> p"
      using d inq by auto
    have "src \<in> set (priorityOrder intent)"
      using inq by (simp add: ord)
    moreover have "succeeded sources src"
      using s ok by (simp add: succeeded_def)
    ultimately have "src \<in> set ?rest"
      using ne by simp
    then have mem: "supplementaryOf sources src \<in> set (map (supplementaryOf sources) ?rest)"
      by (simp only: set_map) (rule imageI)
    have c6: "detail_confidence (supplementaryOf sources src) = 0.6"
      using s falsy
      by (auto simp add: supplementaryOf_def supplementaryDetail_def orDefault_def)
    show "supplementaryOf sources src \<in> set (tl (sourceDetails ?m))
          \<and> source (supplementaryOf sources src) = src
          \<and> detail_confidence (supplementaryOf sources src) = 0.6"
      using mem c6 by (simp add: source_supplementaryOf)
  qed
  show ?thesis
    by (rule exI[of _ ?m], rule conjI, rule m, rule conjI, rule hd, rule conjI,
        rule primary, rule others)
qed

text \<open>
  Where C5 fails as stated: a successful source whose content is the empty string. The
  knowledge-base source is the only one present and successful, and the primary
  response returned is the empty string.
\<close>

theorem mergeResponses_empty_content_counterexample:
  "succeeded
     [''rag'' \<mapsto> \<lparr> success = True, content = Some '''', confidence = Some 0.8, metadata = None \<rparr>]
     ''rag''
   \<and> mergeResponses
     [''rag'' \<mapsto> \<lparr> success = True, content = Some '''', confidence = Some 0.8, metadata = None \<rparr>]
     ''what is data science'' ''rag''
     = Inr \<lparr> primaryResponse = Some '''',
             sourceDetails = [\<lparr> source = ''rag'', detail_confidence = 0.8,
                                detail_content = None, detail_metadata = [] \<rparr>],
             confidenceScore = 0.8,
             usedSources = [''rag''] \<rparr>"
  by (simp add: mergeResponses_def priorityOrder_def Let_def orDefault_def orEmpty_def
      succeeded_def)

text \<open>C5 at a realtime result with confidence 0.9 beside a failed pdf lookup.\<close>

theorem mergeResponses_invariant_witness:
  "contentPresent
     [''realtime'' \<mapsto> \<lparr> success = True, content = Some ''sunny'', confidence = Some 0.9, metadata = None \<rparr>,
      ''pdf'' \<mapsto> \<lparr> success = False, content = None, confidence = None, metadata = None \<rparr>]
     (priorityOrder ''realtime'')
   \<and> (\<exists>m. mergeResponses
          [''realtime'' \<mapsto> \<lparr> success = True, content = Some ''sunny'', confidence = Some 0.9, metadata = None \<rparr>,
           ''pdf'' \<mapsto> \<lparr> success = False, content = None, confidence = None, metadata = None \<rparr>]
          ''weather'' ''realtime'' = Inr m
        \<and> primaryResponse m = Some ''sunny'' \<and> 0 < confidenceScore m)"
proof -
  define R where "R = \<lparr> success = True, content = Some ''sunny'', confidence = Some (0.9 :: real),
                        metadata = (None :: metadata option) \<rparr>"
  define S where "S = [''realtime'' \<mapsto> R,
      ''pdf'' \<mapsto> \<lparr> success = False, content = None, confidence = None, metadata = None \<rparr>]"
  have wf: "contentPresent S (priorityOrder ''realtime'')"
    by (simp add: S_def R_def contentPresent_def priorityOrder_def)
  have yes: "succeeded S ''realtime''"
    by (simp add: S_def R_def succeeded_def)
  have yes4: "succeeded S ''realtime'' \<or> succeeded S ''rag''
               \<or> succeeded S ''pdf'' \<or> succeeded S ''llm''"
    using yes by simp
  from mergeResponses_invariant[OF wf, of "''weather''"]
  obtain m where m: "mergeResponses S ''weather'' ''realtime'' = Inr m"
    and br: "if succeeded S ''realtime'' \<or> succeeded S ''rag''
               \<or> succeeded S ''pdf'' \<or> succeeded S ''llm''
            then \<exists>ps p qs r.
                   priorityOrder ''realtime'' = ps @ p # qs
                   \<and> list_all (\<lambda>src. \<not> succeeded S src) ps
                   \<and> S p = Some r \<and> success r
                   \<and> primaryResponse m = content r
                   \<and> confidenceScore m = orDefault (confidence r) 0.8
                   \<and> ((confidence r = None \<or> (\<exists>x. confidence r = Some x \<and> 0 \<le> x \<and> x \<le> 1))
                        \<longrightarrow> 0 < confidenceScore m)
            else primaryResponse m = Some '''' \<and> sourceDetails m = []
                 \<and> confidenceScore m = 0 \<and> usedSources m = []"
    by blast
  from br obtain ps p qs r where
        ord: "priorityOrder ''realtime'' = ps @ p # qs"
    and first: "list_all (\<lambda>src. \<not> succeeded S src) ps"
    and prim: "S p = Some r" "success r"
    and resp: "primaryResponse m = content r"
    and pos: "(confidence r = None \<or> (\<exists>x. confidence r = Some x \<and> 0 \<le> x \<and> x \<le> 1))
                \<longrightarrow> 0 < confidenceScore m"
    unfolding if_P[OF yes4] by blast
  have "ps = []"
    using ord first yes by (cases ps) (auto simp add: priorityOrder_def)
  then have "p = ''realtime''"
    using ord by (simp add: priorityOrder_def)
  then have r: "r = R"
    using prim(1) by (simp add: S_def)
  have pr: "primaryResponse m = Some ''sunny''"
    using resp r by (simp add: R_def)
  have ex: "\<exists>x. confidence r = Some x \<and> 0 \<le> x \<and> x \<le> 1"
    by (rule exI[of _ "0.9"]) (simp add: r R_def)
  have cs: "0 < confidenceScore m"
    using pos ex by simp
  have fin: "mergeResponses S ''weather'' ''realtime'' = Inr m
        \<and> primaryResponse m = Some ''sunny'' \<and> 0 < confidenceScore m"
    using m pr cs by (intro conjI)
  have "\<exists>m. mergeResponses S ''weather'' ''realtime'' = Inr m
        \<and> primaryResponse m = Some ''sunny'' \<and> 0 < confidenceScore m"
    by (rule exI[of _ m]) (rule fin)
  with wf show ?thesis
    unfolding S_def[symmetric] R_def[symmetric] by (intro conjI)
qed

text \<open>
  C6 at the spec's example: realtime with confidence 0.9, pdf with confidence 0.95 and a
  content of 120 characters.
\<close>

theorem mergeResponses_priority_over_confidence_witness:
  "\<exists>m. mergeResponses
          [''realtime'' \<mapsto> \<lparr> success = True, content = Some ''sunny'', confidence = Some 0.9, metadata = None \<rparr>,
           ''pdf'' \<mapsto> \<lparr> success = True, content = Some (replicate 120 CHR ''x''), confidence = Some 0.95, metadata = None \<rparr>]
          ''weather'' ''realtime'' = Inr m
        \<and> primaryResponse m = Some ''sunny''
        \<and> confidenceScore m = 0.9
        \<and> map source (sourceDetails m) = [''realtime'', ''pdf'']
        \<and> map detail_content (sourceDetails m) = [None, Some (replicate 100 CHR ''x'' @ ''...'')]"
proof -
  define R where "R = \<lparr> success = True, content = Some ''sunny'', confidence = Some (0.9 :: real),
                        metadata = (None :: metadata option) \<rparr>"
  define D where "D = \<lparr> success = True, content = Some (replicate 120 CHR ''x''),
                        confidence = Some (0.95 :: real), metadata = (None :: metadata option) \<rparr>"
  define S where "S = [''realtime'' \<mapsto> R, ''pdf'' \<mapsto> D]"
  have h1: "S ''realtime'' = Some R" by (simp add: S_def)
  have h2: "success R" by (simp add: R_def)
  have h3: "S ''pdf'' = Some D" by (simp add: S_def)
  have h4: "success D" by (simp add: D_def)
  have h5: "content D = Some (replicate 120 CHR ''x'')" by (simp add: D_def)
  have wf: "contentPresent S (priorityOrder ''realtime'')"
    by (simp add: S_def R_def D_def contentPresent_def priorityOrder_def)
  have rest: "filter (succeeded S) [''rag'', ''pdf'', ''llm''] = [''pdf'']"
    by (simp add: S_def D_def succeeded_def)
  from mergeResponses_priority_over_confidence[OF h1 h2 h3 h4 h5 wf, of "''weather''"]
  obtain m where q: "mergeResponses S ''weather'' ''realtime'' = Inr m
           \<and> primaryResponse m = content R
           \<and> confidenceScore m = orDefault (confidence R) 0.8
           \<and> map source (sourceDetails m)
                = ''realtime'' # filter (succeeded S) [''rag'', ''pdf'', ''llm'']
           \<and> usedSources m = ''realtime'' # filter (succeeded S) [''rag'', ''pdf'', ''llm'']
           \<and> detail_content (hd (sourceDetails m)) = None
           \<and> tl (sourceDetails m)
                = map (supplementaryOf S) (filter (succeeded S) [''rag'', ''pdf'', ''llm''])
           \<and> supplementaryOf S ''pdf'' \<in> set (tl (sourceDetails m))
           \<and> detail_content (supplementaryOf S ''pdf'')
                = Some (take 100 (replicate 120 CHR ''x'') @ ''...'')
           \<and> list_all (\<lambda>e. case detail_content e of None \<Rightarrow> False | Some p \<Rightarrow> length p \<le> 103)
                (tl (sourceDetails m))" ..
  note m = q[THEN conjunct1]
  note a = q[THEN conjunct2, THEN conjunct1]
  note b = q[THEN conjunct2, THEN conjunct2, THEN conjunct1]
  note c = q[THEN conjunct2, THEN conjunct2, THEN conjunct2, THEN conjunct1]
  note d = q[THEN conjunct2, THEN conjunct2, THEN conjunct2, THEN conjunct2, THEN conjunct2,
             THEN conjunct1]
  note e = q[THEN conjunct2, THEN conjunct2, THEN conjunct2, THEN conjunct2, THEN conjunct2,
             THEN conjunct2, THEN conjunct1]
  note f = q[THEN conjunct2, THEN conjunct2, THEN conjunct2, THEN conjunct2, THEN conjunct2,
             THEN conjunct2, THEN conjunct2, THEN conjunct2, THEN conjunct1]
  from c have ne: "sourceDetails m \<noteq> []" by auto
  have sd: "sourceDetails m = hd (sourceDetails m) # [supplementaryOf S ''pdf'']"
    using ne e unfolding rest by (cases "sourceDetails m") simp_all
  have dc: "map detail_content (sourceDetails m) = [None, Some (replicate 100 CHR ''x'' @ ''...'')]"
    using d f by (subst sd) simp
  have pr: "primaryResponse m = Some ''sunny''"
    using a by (simp add: R_def)
  have cs: "confidenceScore m = 0.9"
    using b by (simp add: R_def orDefault_def)
  have ms: "map source (sourceDetails m) = [''realtime'', ''pdf'']"
    using c unfolding rest .
  have fin: "mergeResponses S ''weather'' ''realtime'' = Inr m
        \<and> primaryResponse m = Some ''sunny''
        \<and> confidenceScore m = 0.9
        \<and> map source (sourceDetails m) = [''realtime'', ''pdf'']
        \<and> map detail_content (sourceDetails m) = [None, Some (replicate 100 CHR ''x'' @ ''...'')]"
    using m pr cs ms dc by (intro conjI)
  show ?thesis
    unfolding S_def[symmetric] R_def[symmetric] D_def[symmetric]
    by (rule exI[of _ m]) (rule fin)
qed

text \<open>
  C10 at a realtime result with confidence 0 and no other source, and at a realtime
  result with confidence 0.9 beside a knowledge-base result with confidence 0.
\<close>

theorem mergeResponses_zero_confidence_defaults_witness:
  "(\<exists>m. mergeResponses
          [''realtime'' \<mapsto> \<lparr> success = True, content = Some ''sunny'', confidence = Some 0, metadata = None \<rparr>]
          ''weather'' ''realtime'' = Inr m
        \<and> confidenceScore m = 0.8
        \<and> source (hd (sourceDetails m)) = ''realtime''
        \<and> detail_confidence (hd (sourceDetails m)) = 0.8)
   \<and> (\<exists>m. mergeResponses
          [''realtime'' \<mapsto> \<lparr> success = True, content = Some ''sunny'', confidence = Some 0.9, metadata = None \<rparr>,
           ''rag'' \<mapsto> \<lparr> success = True, content = Some ''doc'', confidence = Some 0, metadata = None \<rparr>]
          ''weather'' ''realtime'' = Inr m
        \<and> source (hd (sourceDetails m)) = ''realtime''
        \<and> map source (tl (sourceDetails m)) = [''rag'']
        \<and> map detail_confidence (tl (sourceDetails m)) = [0.6])"
proof -
  have ord: "priorityOrder ''realtime'' = [] @ ''realtime'' # [''rag'', ''pdf'', ''llm'']"
    by (simp add: priorityOrder_def)
  have partA: "\<exists>m. mergeResponses
          [''realtime'' \<mapsto> \<lparr> success = True, content = Some ''sunny'', confidence = Some 0, metadata = None \<rparr>]
          ''weather'' ''realtime'' = Inr m
        \<and> confidenceScore m = 0.8
        \<and> source (hd (sourceDetails m)) = ''realtime''
        \<and> detail_confidence (hd (sourceDetails m)) = 0.8"
  proof -
    define R where "R = \<lparr> success = True, content = Some ''sunny'', confidence = Some (0 :: real),
                          metadata = (None :: metadata option) \<rparr>"
    define S where "S = [''realtime'' \<mapsto> R]"
    have wf: "contentPresent S (priorityOrder ''realtime'')"
      by (simp add: S_def R_def contentPresent_def priorityOrder_def)
    have first: "list_all (\<lambda>src. \<not> succeeded S src) []" by simp
    have p1: "S ''realtime'' = Some R" by (simp add: S_def)
    have p2: "success R" by (simp add: R_def)
    have z: "confidence R = None \<or> confidence R = Some 0" by (simp add: R_def)
    from mergeResponses_zero_confidence_defaults[OF wf ord first p1 p2, of "''weather''"]
    obtain m where q: "mergeResponses S ''weather'' ''realtime'' = Inr m
           \<and> source (hd (sourceDetails m)) = ''realtime''
           \<and> (confidence R = None \<or> confidence R = Some 0 \<longrightarrow>
                 confidenceScore m = 0.8 \<and> detail_confidence (hd (sourceDetails m)) = 0.8)
           \<and> (\<forall>src r'. src \<in> set [''rag'', ''pdf'', ''llm''] \<and> S src = Some r' \<and> success r'
                    \<and> (confidence r' = None \<or> confidence r' = Some 0) \<longrightarrow>
                 supplementaryOf S src \<in> set (tl (sourceDetails m))
                 \<and> source (supplementaryOf S src) = src
                 \<and> detail_confidence (supplementaryOf S src) = 0.6)" ..
    note m = q[THEN conjunct1]
    note h = q[THEN conjunct2, THEN conjunct1]
    note pr = q[THEN conjunct2, THEN conjunct2, THEN conjunct1, rule_format, OF z]
    have fin: "mergeResponses S ''weather'' ''realtime'' = Inr m
        \<and> confidenceScore m = 0.8
        \<and> source (hd (sourceDetails m)) = ''realtime''
        \<and> detail_confidence (hd (sourceDetails m)) = 0.8"
      using m h pr by (intro conjI) simp_all
    show ?thesis
      unfolding S_def[symmetric] R_def[symmetric]
      by (rule exI[of _ m]) (rule fin)
  qed
  have partB: "\<exists>m. mergeResponses
          [''realtime'' \<mapsto> \<lparr> success = True, content = Some ''sunny'', confidence = Some 0.9, metadata = None \<rparr>,
           ''rag'' \<mapsto> \<lparr> success = True, content = Some ''doc'', confidence = Some 0, metadata = None \<rparr>]
          ''weather'' ''realtime'' = Inr m
        \<and> source (hd (sourceDetails m)) = ''realtime''
        \<and> map source (tl (sourceDetails m)) = [''rag'']
        \<and> map detail_confidence (tl (sourceDetails m)) = [0.6]"
  proof -
    define R where "R = \<lparr> success = True, content = Some ''sunny'', confidence = Some (0.9 :: real),
                          metadata = (None :: metadata option) \<rparr>"
    define D where "D = \<lparr> success = True, content = Some ''doc'',
                          confidence = Some (0 :: real), metadata = (None :: metadata option) \<rparr>"
    define S where "S = [''realtime'' \<mapsto> R, ''rag'' \<mapsto> D]"
    have wf: "contentPresent S (priorityOrder ''realtime'')"
      by (simp add: S_def R_def D_def contentPresent_def priorityOrder_def)
    have first: "list_all (\<lambda>src. \<not> succeeded S src) []" by simp
    have p1: "S ''realtime'' = Some R" by (simp add: S_def)
    have p2: "success R" by (simp add: R_def)
    have sup: "''rag'' \<in> set [''rag'', ''pdf'', ''llm''] \<and> S ''rag'' = Some D \<and> success D
                 \<and> (confidence D = None \<or> confidence D = Some 0)"
      by (simp add: S_def D_def)
    from mergeResponses_zero_confidence_defaults[OF wf ord first p1 p2, of "''weather''"]
    obtain m where q: "mergeResponses S ''weather'' ''realtime'' = Inr m
           \<and> source (hd (sourceDetails m)) = ''realtime''
           \<and> (confidence R = None \<or> confidence R = Some 0 \<longrightarrow>
                 confidenceScore m = 0.8 \<and> detail_confidence (hd (sourceDetails m)) = 0.8)
           \<and> (\<forall>src r'. src \<in> set [''rag'', ''pdf'', ''llm''] \<and> S src = Some r' \<and> success r'
                    \<and> (confidence r' = None \<or> confidence r' = Some 0) \<longrightarrow>
                 supplementaryOf S src \<in> set (tl (sourceDetails m))
                 \<and> source (supplementaryOf S src) = src
                 \<and> detail_confidence (supplementaryOf S src) = 0.6)" ..
    note m = q[THEN conjunct1]
    note h = q[THEN conjunct2, THEN conjunct1]
    note sp = q[THEN conjunct2, THEN conjunct2, THEN conjunct2, rule_format, OF sup]
    have rest: "filter (\<lambda>s. s \<noteq> ''realtime'' \<and> succeeded S s) (priorityOrder ''realtime'') = [''rag'']"
      by (simp add: S_def D_def succeeded_def priorityOrder_def)
    have ev: "mergeResponses S ''weather'' ''realtime'' =
              Inr \<lparr> primaryResponse = content R,
                    sourceDetails =
                      \<lparr> source = ''realtime'', detail_confidence = orDefault (confidence R) 0.8,
                        detail_content = None, detail_metadata = orEmpty (metadata R) \<rparr>
                      # map (supplementaryOf S) [''rag''],
                    confidenceScore = orDefault (confidence R) 0.8,
                    usedSources = ''realtime'' # [''rag''] \<rparr>"
      using mergeResponses_some[OF wf ord first p1 p2, of "''weather''"] unfolding rest .
    have tl: "tl (sourceDetails m) = [supplementaryOf S ''rag'']"
      using m unfolding ev by auto
    have ms: "map source (tl (sourceDetails m)) = [''rag'']"
      using sp unfolding tl by simp
    have mc: "map detail_confidence (tl (sourceDetails m)) = [0.6]"
      using sp unfolding tl by simp
    have fin: "mergeResponses S ''weather'' ''realtime'' = Inr m
        \<and> source (hd (sourceDetails m)) = ''realtime''
        \<and> map source (tl (sourceDetails m)) = [''rag'']
        \<and> map detail_confidence (tl (sourceDetails m)) = [0.6]"
      using m h ms mc by (intro conjI)
    show ?thesis
      unfolding S_def[symmetric] R_def[symmetric] D_def[symmetric]
      by (rule exI[of _ m]) (rule fin)
  qed
  show ?thesis
    by (rule conjI[OF partA partB])
qed

section \<open>Properties of the intent classifier\<close>

text \<open>The selection of the category, for any three scores.\<close>

lemma dominantIntentOf_cases:
  "dominantIntentOf sc =
     (if 0 < realtime sc \<and> rag sc \<le> realtime sc \<and> general sc \<le> realtime sc then ''realtime''
      else if 0 < rag sc \<and> realtime sc \<le> rag sc \<and> general sc \<le> rag sc then ''rag''
      else ''general'')"
  by (auto simp add: dominantIntentOf_def maxScoreOf_def Let_def max_def)

lemma detectIntentRuleBased_Inr:
  assumes "detectIntentRuleBased message = Inr res"
  shows "rule_intent res = dominantIntentOf (rule_scores res)"
    and "rag (rule_scores res) = matchCount (toLowerCase message) ragKeywords"
    and "general (rule_scores res) = matchCount (toLowerCase message) generalKeywords"
    and "realtimeLoop message (toLowerCase message) INTENT_PATTERNS 0
           = Inr (realtime (rule_scores res))"
    and "rule_type res = (if rule_intent res = ''realtime''
                          then firstType (toLowerCase message) INTENT_PATTERNS else None)"
  using assms
  by (auto simp add: detectIntentRuleBased_def Let_def split: sum.splits)

text \<open>
  When the rule-based classifier raises: exactly when the lower-cased message contains a
  keyword of one of the live-data patterns. The loop over the patterns returns its
  starting score unchanged when it returns at all.
\<close>

lemma realtimeLoop_raises:
  "realtimeLoop message messageLower ps acc =
     (if list_ex (\<lambda>p. 0 < matchCount messageLower (pattern_keywords p)) ps
      then Inl TypeError else Inr acc)"
  by (induction ps arbitrary: acc)
     (simp_all add: Let_def get_detectedType_def set_detectedType_def)

lemma detectIntentRuleBased_raises:
  "detectIntentRuleBased message = Inl err \<longleftrightarrow>
     err = TypeError
     \<and> list_ex (\<lambda>p. 0 < matchCount (toLowerCase message) (pattern_keywords p)) INTENT_PATTERNS"
  by (auto simp add: detectIntentRuleBased_def realtimeLoop_raises Let_def)

text \<open>
  Claim C3, as amended. The category is selected from the three keyword-match counts
  by a rule that holds for any counts: realtime if its count is positive and not
  below the other two, else rag if its count is positive and not below the other two,
  else general. The maximum need not be strict; a tie for it goes to the first of
  realtime, rag, general that takes part in it, and all counts zero give general.
  Whenever \<open>detectIntentRuleBased\<close> returns a result, its category is the one this
  rule selects from its scores; no live-data keyword occurs in the lower-cased message
  and the realtime score is 0, the rag and general scores are the keyword-match
  counts; so the category is never realtime, it is rag exactly when the rag count is
  positive and not below the general count, and general otherwise; no sub-type is set.
\<close>

theorem detectIntentRuleBased_dominant:
  assumes "detectIntentRuleBased message = Inr res"
  shows "(\<forall>sc. dominantIntentOf sc =
            (if 0 < realtime sc \<and> rag sc \<le> realtime sc \<and> general sc \<le> realtime sc
             then ''realtime''
             else if 0 < rag sc \<and> realtime sc \<le> rag sc \<and> general sc \<le> rag sc
             then ''rag''
             else ''general''))
       \<and> rule_intent res = dominantIntentOf (rule_scores res)
       \<and> \<not> list_ex (\<lambda>p. 0 < matchCount (toLowerCase message) (pattern_keywords p))
              INTENT_PATTERNS
       \<and> realtime (rule_scores res) = 0
       \<and> rag (rule_scores res) = matchCount (toLowerCase message) ragKeywords
       \<and> general (rule_scores res) = matchCount (toLowerCase message) generalKeywords
       \<and> rule_intent res \<noteq> ''realtime''
       \<and> (rule_intent res = ''rag'' \<longleftrightarrow>
             0 < rag (rule_scores res) \<and> general (rule_scores res) \<le> rag (rule_scores res))
       \<and> (rule_intent res = ''general'' \<longleftrightarrow>
             \<not> (0 < rag (rule_scores res) \<and> general (rule_scores res) \<le> rag (rule_scores res)))
       \<and> rule_type res = None"
proof -
  note i = detectIntentRuleBased_Inr[OF assms]
  have rule: "\<forall>sc. dominantIntentOf sc =
            (if 0 < realtime sc \<and> rag sc \<le> realtime sc \<and> general sc \<le> realtime sc
             then ''realtime''
             else if 0 < rag sc \<and> realtime sc \<le> rag sc \<and> general sc \<le> rag sc
             then ''rag''
             else ''general'')"
    by (intro allI) (rule dominantIntentOf_cases)
  have loop: "\<not> list_ex (\<lambda>p. 0 < matchCount (toLowerCase message) (pattern_keywords p))
                 INTENT_PATTERNS
              \<and> realtime (rule_scores res) = 0"
    using i(4) unfolding realtimeLoop_raises by (simp split: if_splits)
  note nokw = loop[THEN conjunct1]
  note zero = loop[THEN conjunct2]
  have sel: "rule_intent res =
               (if 0 < rag (rule_scores res) \<and> general (rule_scores res) \<le> rag (rule_scores res)
                then ''rag'' else ''general'')"
    unfolding i(1) dominantIntentOf_cases using zero by simp
  have notrt: "rule_intent res \<noteq> ''realtime''"
    unfolding sel by simp
  have israg: "rule_intent res = ''rag'' \<longleftrightarrow>
             0 < rag (rule_scores res) \<and> general (rule_scores res) \<le> rag (rule_scores res)"
    unfolding sel by simp
  have isgen: "rule_intent res = ''general'' \<longleftrightarrow>
             \<not> (0 < rag (rule_scores res) \<and> general (rule_scores res) \<le> rag (rule_scores res))"
    unfolding sel by simp
  have notype: "rule_type res = None"
    using i(5) notrt by simp
  show ?thesis
    by (rule conjI[OF rule conjI[OF i(1) conjI[OF nokw conjI[OF zero conjI[OF i(2)
          conjI[OF i(3) conjI[OF notrt conjI[OF israg conjI[OF isgen notype]]]]]]]]])
qed

lemmas ruleBased_eval =
  detectIntentRuleBased_def toLowerCase_def toLowerCaseChar_def INTENT_PATTERNS_def
  ragKeywords_def generalKeywords_def matchCount_def maxScoreOf_def dominantIntentOf_def
  Let_def get_detectedType_def set_detectedType_def

text \<open>
  Where C3 fails as stated: "explain this" matches one knowledge keyword (explain) and
  one conversational keyword (hi, inside "this"); the two categories tie for the
  maximum and the result is rag, not general.
\<close>

theorem detectIntentRuleBased_tie_counterexample:
  "detectIntentRuleBased ''explain this'' =
     Inr \<lparr> rule_intent = ''rag'', rule_confidence = 1 / 3,
           rule_scores = \<lparr> realtime = 0, rag = 1, general = 1 \<rparr>, rule_type = None \<rparr>"
  by (simp add: ruleBased_eval)

text \<open>
  C3 at "tell me about it": two knowledge keywords, nothing else, and the result is
  rag; and the selection rule at three ties: realtime wins a three-way tie, rag wins a
  tie with general, and all zero gives general.
\<close>

theorem detectIntentRuleBased_dominant_witness:
  "detectIntentRuleBased ''tell me about it'' =
     Inr \<lparr> rule_intent = ''rag'', rule_confidence = 2 / 3,
           rule_scores = \<lparr> realtime = 0, rag = 2, general = 0 \<rparr>, rule_type = None \<rparr>
   \<and> matchCount (toLowerCase ''tell me about it'') ragKeywords = 2
   \<and> matchCount (toLowerCase ''tell me about it'') generalKeywords = 0
   \<and> dominantIntentOf \<lparr> realtime = 1, rag = 1, general = 1 \<rparr> = ''realtime''
   \<and> dominantIntentOf \<lparr> realtime = 0, rag = 1, general = 1 \<rparr> = ''rag''
   \<and> dominantIntentOf \<lparr> realtime = 0, rag = 0, general = 0 \<rparr> = ''general''"
proof -
  have ev: "detectIntentRuleBased ''tell me about it'' =
     Inr \<lparr> rule_intent = ''rag'', rule_confidence = 2 / 3,
           rule_scores = \<lparr> realtime = 0, rag = 2, general = 0 \<rparr>, rule_type = None \<rparr>"
    by (simp add: ruleBased_eval)
  note t = detectIntentRuleBased_dominant[OF ev]
  note rule = t[THEN conjunct1, rule_format]
  note cr = t[THEN conjunct2, THEN conjunct2, THEN conjunct2, THEN conjunct2, THEN conjunct1]
  note cg = t[THEN conjunct2, THEN conjunct2, THEN conjunct2, THEN conjunct2, THEN conjunct2,
              THEN conjunct1]
  have r: "matchCount (toLowerCase ''tell me about it'') ragKeywords = 2"
    using cr by simp
  have g: "matchCount (toLowerCase ''tell me about it'') generalKeywords = 0"
    using cg by simp
  have d1: "dominantIntentOf \<lparr> realtime = 1, rag = 1, general = 1 \<rparr> = ''realtime''"
    by (subst rule) simp
  have d2: "dominantIntentOf \<lparr> realtime = 0, rag = 1, general = 1 \<rparr> = ''rag''"
    by (subst rule) simp
  have d3: "dominantIntentOf \<lparr> realtime = 0, rag = 0, general = 0 \<rparr> = ''general''"
    by (subst rule) simp
  show ?thesis
    by (rule conjI[OF ev conjI[OF r conjI[OF g conjI[OF d1 conjI[OF d2 d3]]]]])
qed

text \<open>\<open>detectIntent\<close> raises on the same messages as the rule-based classifier.\<close>

lemma detectIntent_raises:
  "detectIntent message = Inl err \<longleftrightarrow>
     err = TypeError
     \<and> list_ex (\<lambda>p. 0 < matchCount (toLowerCase message) (pattern_keywords p)) INTENT_PATTERNS"
  using detectIntentRuleBased_raises[of message err]
  by (auto simp add: detectIntent_def Let_def split: sum.splits)

text \<open>
  Claim C1 (fails on the code). On the message "weather", and on "What is the weather
  in Paris?", the assignment to \<open>message._detectedType\<close> raises a \<open>TypeError\<close> inside
  \<open>detectIntentRuleBased\<close>, and \<open>detectIntent\<close> ends with that exception instead of
  returning a classification.
\<close>

theorem detectIntent_weather_raises:
  "detectIntentRuleBased ''weather'' = Inl TypeError
   \<and> detectIntent ''weather'' = Inl TypeError
   \<and> detectIntent ''What is the weather in Paris?'' = Inl TypeError"
  by (simp add: detectIntent_def ruleBased_eval)

text \<open>The trained model: 24 examples, three classes with 15, 5 and 4 examples.\<close>

lemma TRAINING_DATA_length: "length TRAINING_DATA = 24"
  by (simp add: TRAINING_DATA_def)

lemma TRAINING_DATA_groups:
  "map (\<lambda>ce. (fst ce, length (snd ce))) (groupExamples TRAINING_DATA []) =
     [(''realtime'', 15), (''rag'', 5), (''general'', 4)]"
  by (simp add: TRAINING_DATA_def)

lemma classPrior_mlClassifier:
  "classPrior mlClassifier = [(''realtime'', 15 / 24), (''rag'', 5 / 24), (''general'', 4 / 24)]"
  by (simp add: mlClassifier_def train_def Let_def NaiveBayesIntentClassifier_new_def
      TRAINING_DATA_def)

lemma isTrained_mlClassifier: "isTrained mlClassifier"
  by (simp add: mlClassifier_def train_def Let_def)

lemma extractFeatures_empty: "extractFeatures '''' = []"
  by (simp add: extractFeatures_def toLowerCase_def)

lemma predict_empty:
  "predict mlClassifier '''' =
     Inr \<lparr> pred_intent = Some ''realtime'', pred_confidence = Num 1,
           pred_scores = [(''realtime'', Num (ln (15 / 24))), (''rag'', Num (ln (5 / 24))),
                          (''general'', Num (ln (4 / 24)))] \<rparr>"
  by (simp add: predict_def isTrained_mlClassifier extractFeatures_empty classPrior_mlClassifier
      Let_def Math_max_def Math_min_def normalize_def)

lemma extractEntities_empty:
  "extractEntities '''' =
     \<lparr> locations = [], organizations = [], dates = [], currencies = [], numbers = [],
       topics = [] \<rparr>"
  by (simp add: extractEntities_def)

lemma scoreConfidenceByEntities_empty:
  "scoreConfidenceByEntities
     \<lparr> locations = [], organizations = [], dates = [], currencies = [], numbers = [],
       topics = [] \<rparr> = 0.5"
  by (simp add: scoreConfidenceByEntities_def)

lemma detectIntentRuleBased_empty:
  "detectIntentRuleBased '''' =
     Inr \<lparr> rule_intent = ''general'', rule_confidence = 0,
           rule_scores = \<lparr> realtime = 0, rag = 0, general = 0 \<rparr>, rule_type = None \<rparr>"
  by (simp add: ruleBased_eval)

text \<open>
  Claim C2, as amended. On the empty message the rule-based classifier alone gives
  general with confidence 0. \<open>detectIntent\<close> does not return that: the statistical
  path scores every class by its prior, picks realtime (15 of the 24 examples) with
  the normalized confidence 1, which is not below 0.6, so the result is the
  statistical one, and the blend with the entity score 0.5 gives the final confidence
  0.7 * 1 + 0.3 * 0.5 = 0.85.
\<close>

theorem detectIntent_empty:
  "detectIntentRuleBased '''' =
     Inr \<lparr> rule_intent = ''general'', rule_confidence = 0,
           rule_scores = \<lparr> realtime = 0, rag = 0, general = 0 \<rparr>, rule_type = None \<rparr>
   \<and> detectIntent '''' =
     Inr \<lparr> result_intent = Some ''realtime'',
           result_confidence = Num 0.85,
           result_method = ''ml'',
           result_scores = ModelScores [(''realtime'', Num (ln (15 / 24))),
                                        (''rag'', Num (ln (5 / 24))),
                                        (''general'', Num (ln (4 / 24)))],
           result_type = None,
           result_mlConfidence = None,
           result_error = None,
           result_entities = Some \<lparr> locations = [], organizations = [], dates = [],
                                     currencies = [], numbers = [], topics = [] \<rparr> \<rparr>"
  by (simp add: detectIntent_def detectIntentRuleBased_empty extractEntities_empty
      scoreConfidenceByEntities_empty predictIntentML_def predict_empty js_lt_def Let_def)

text \<open>
  Where C2 fails as stated: the category returned for the empty message is realtime,
  not general, and the final confidence is 0.85, not 0.
\<close>

theorem detectIntent_empty_counterexample:
  "map_sum id result_intent (detectIntent '''') = Inr (Some ''realtime'')
   \<and> map_sum id result_confidence (detectIntent '''') = Inr (Num 0.85)
   \<and> Some ''realtime'' \<noteq> Some ''general'' \<and> Num 0.85 \<noteq> Num 0"
  by (simp add: detectIntent_def detectIntentRuleBased_empty extractEntities_empty
      scoreConfidenceByEntities_empty predictIntentML_def predict_empty js_lt_def Let_def)

end
